theory Spec2Isabelle
  imports Complex_Main
begin

section \<open>Python values as they reach the handlers\<close>

text \<open>
  A Python \<open>str\<close> is represented by the bytes of its UTF-8 encoding, so an ASCII literal of
  the source is the same literal here and a CJK character of the preset tables is three
  bytes. Concatenation, the emptiness test and equality of strings commute with that
  encoding, and the handlers use nothing else of a string.
\<close>

type_synonym pystr = string

text \<open>
  The result of \<open>json.loads\<close>: \<open>None\<close>, \<open>bool\<close>, \<open>int\<close>, \<open>float\<close> (finite, or one of the
  three non-finite literals that Python's parser accepts), \<open>str\<close>, \<open>list\<close> and \<open>dict\<close>
  (its items, keys distinct, so that \<open>map_of\<close> is the lookup).
\<close>

datatype nonfinite = NaN | PosInfinity | NegInfinity

datatype json =
    JNull
  | JBool bool
  | JInt int
  | JFloat real
  | JNonFinite nonfinite
  | JStr pystr
  | JArr "json list"
  | JObj "(pystr \<times> json) list"

text \<open>Python's truth value of an object, as \<open>if x\<close> and \<open>not x\<close> test it.\<close>

fun truthy :: "json \<Rightarrow> bool" where
  "truthy JNull = False"
| "truthy (JBool b) = b"
| "truthy (JInt i) = (i \<noteq> 0)"
| "truthy (JFloat r) = (r \<noteq> 0)"
| "truthy (JNonFinite n) = True"
| "truthy (JStr s) = (s \<noteq> [])"
| "truthy (JArr xs) = (xs \<noteq> [])"
| "truthy (JObj kvs) = (kvs \<noteq> [])"

datatype pytype = TNone | TBool | TInt | TFloat | TStr | TList | TDict

fun type_of :: "json \<Rightarrow> pytype" where
  "type_of JNull = TNone"
| "type_of (JBool b) = TBool"
| "type_of (JInt i) = TInt"
| "type_of (JFloat r) = TFloat"
| "type_of (JNonFinite n) = TFloat"
| "type_of (JStr s) = TStr"
| "type_of (JArr xs) = TList"
| "type_of (JObj kvs) = TDict"

text \<open>
  What a \<open>try\<close> block of a handler can raise. \<open>json.loads\<close> raises \<open>JSONDecodeError\<close> on
  malformed text; every other exception is caught by \<open>except Exception\<close>. The interpreter's
  own errors are kept apart by kind, a library's error carries its message.
\<close>

datatype exn =
    JSONDecodeError
  | AttributeError pytype      \<comment> \<open>\<open>.get\<close> on an object that is not a dict\<close>
  | Unhashable pytype          \<comment> \<open>a list or dict used as a dictionary key\<close>
  | UnsupportedOperand pytype  \<comment> \<open>\<open>x += str\<close> where \<open>x\<close> is not a str\<close>
  | LibraryError pystr

section \<open>Dictionary access\<close>

text \<open>\<open>d.get(key, default)\<close> on the items of a dict.\<close>

definition dict_get :: "(pystr \<times> 'v) list \<Rightarrow> pystr \<Rightarrow> 'v \<Rightarrow> 'v" where
  "dict_get kvs key dflt = (case map_of kvs key of Some v \<Rightarrow> v | None \<Rightarrow> dflt)"

text \<open>
  \<open>body.get(key, default)\<close> on the parsed request body (\<open>body.get(key)\<close> has the default
  \<open>None\<close>). A parsed value that is not a dict has no attribute \<open>get\<close>.
\<close>

definition body_get :: "json \<Rightarrow> pystr \<Rightarrow> json \<Rightarrow> exn + json" where
  "body_get parsed key dflt =
     (case parsed of
        JObj kvs \<Rightarrow> Inr (dict_get kvs key dflt)
      | _ \<Rightarrow> Inl (AttributeError (type_of parsed)))"

text \<open>
  \<open>table.get(key, default)\<close> on a dictionary with string keys, for a key that is any
  parsed value: a list or a dict cannot be hashed, a string is looked up, and any other
  value is hashable but equal to no string.
\<close>

definition preset_get :: "(pystr \<times> 'v) list \<Rightarrow> json \<Rightarrow> 'v \<Rightarrow> exn + 'v" where
  "preset_get table key dflt =
     (case key of
        JArr xs \<Rightarrow> Inl (Unhashable TList)
      | JObj kvs \<Rightarrow> Inl (Unhashable TDict)
      | JStr s \<Rightarrow> Inr (dict_get table s dflt)
      | _ \<Rightarrow> Inr dflt)"

section \<open>The preset tables of \<open>camera_edit\<close>\<close>

definition camera_presets :: "(pystr \<times> pystr) list" where
  "camera_presets = [
    (''Front View'',
      [CHR 0xE6, CHR 0xAD, CHR 0xA3, CHR 0xE9, CHR 0x9D, CHR 0xA2, CHR 0xE8, CHR 0xA7, CHR 0x86, CHR 0xE8, CHR 0xA7, CHR 0x92] @ '', front view, facing camera directly''),
    (''Profile Left'',
      [CHR 0xE5, CHR 0xB7, CHR 0xA6, CHR 0xE4, CHR 0xBE, CHR 0xA7, CHR 0xE8, CHR 0xBD, CHR 0xAE, CHR 0xE5, CHR 0xBB, CHR 0x93] @ '', left profile view, 90 degree side angle''),
    (''Profile Right'',
      [CHR 0xE5, CHR 0x8F, CHR 0xB3, CHR 0xE4, CHR 0xBE, CHR 0xA7, CHR 0xE8, CHR 0xBD, CHR 0xAE, CHR 0xE5, CHR 0xBB, CHR 0x93] @ '', right profile view, 90 degree side angle''),
    (''Back View'',
      [CHR 0xE8, CHR 0x83, CHR 0x8C, CHR 0xE9, CHR 0x9D, CHR 0xA2, CHR 0xE8, CHR 0xA7, CHR 0x86, CHR 0xE8, CHR 0xA7, CHR 0x92] @ '', back view, rear angle''),
    (''Three-Quarter Left'',
      [CHR 0xE5, CHR 0xB7, CHR 0xA6, CHR 0xE4, CHR 0xBE, CHR 0xA7, CHR 0xE5, CHR 0x9B, CHR 0x9B, CHR 0xE5, CHR 0x88, CHR 0x86, CHR 0xE4, CHR 0xB9, CHR 0x8B, CHR 0xE4, CHR 0xB8, CHR 0x89, CHR 0xE8, CHR 0xA7, CHR 0x86, CHR 0xE8, CHR 0xA7, CHR 0x92] @ '', left three-quarter view''),
    (''Three-Quarter Right'',
      [CHR 0xE5, CHR 0x8F, CHR 0xB3, CHR 0xE4, CHR 0xBE, CHR 0xA7, CHR 0xE5, CHR 0x9B, CHR 0x9B, CHR 0xE5, CHR 0x88, CHR 0x86, CHR 0xE4, CHR 0xB9, CHR 0x8B, CHR 0xE4, CHR 0xB8, CHR 0x89, CHR 0xE8, CHR 0xA7, CHR 0x86, CHR 0xE8, CHR 0xA7, CHR 0x92] @ '', right three-quarter view''),
    (''Top Down View'',
      [CHR 0xE4, CHR 0xBF, CHR 0xAF, CHR 0xE8, CHR 0xA7, CHR 0x86, CHR 0xE5, CHR 0x9B, CHR 0xBE] @ '', top-down view, bird's eye perspective''),
    (''Low Angle'',
      [CHR 0xE4, CHR 0xBB, CHR 0xB0, CHR 0xE8, CHR 0xA7, CHR 0x92, CHR 0xE8, CHR 0xA7, CHR 0x86, CHR 0xE5, CHR 0x9B, CHR 0xBE] @ '', low angle shot looking up''),
    (''Eye Level'',
      [CHR 0xE5, CHR 0xB9, CHR 0xB3, CHR 0xE8, CHR 0xA7, CHR 0x86] @ '', eye level view, neutral height''),
    (''High Angle'',
      [CHR 0xE4, CHR 0xBF, CHR 0xAF, CHR 0xE8, CHR 0xA7, CHR 0x92] @ '', high angle looking down''),
    (''Dolly In'',
      [CHR 0xE5, CHR 0x90, CHR 0x91, CHR 0xE5, CHR 0x89, CHR 0x8D, CHR 0xE6, CHR 0x8E, CHR 0xA8, CHR 0xE8, CHR 0xBF, CHR 0x9B] @ '', camera dollies forward, push in''),
    (''Dolly Out'',
      [CHR 0xE5, CHR 0x90, CHR 0x91, CHR 0xE5, CHR 0x90, CHR 0x8E, CHR 0xE6, CHR 0x8B, CHR 0x89, CHR 0xE5, CHR 0x87, CHR 0xBA] @ '', camera dollies backward, pull out''),
    (''Crane Up'',
      [CHR 0xE6, CHR 0x91, CHR 0x87, CHR 0xE8, CHR 0x87, CHR 0x82, CHR 0xE4, CHR 0xB8, CHR 0x8A, CHR 0xE5, CHR 0x8D, CHR 0x87] @ '', crane shot moving upward''),
    (''Crane Down'',
      [CHR 0xE6, CHR 0x91, CHR 0x87, CHR 0xE8, CHR 0x87, CHR 0x82, CHR 0xE4, CHR 0xB8, CHR 0x8B, CHR 0xE9, CHR 0x99, CHR 0x8D] @ '', crane shot moving downward''),
    (''Orbit Left'',
      [CHR 0xE5, CHR 0x90, CHR 0x91, CHR 0xE5, CHR 0xB7, CHR 0xA6, CHR 0xE7, CHR 0x8E, CHR 0xAF, CHR 0xE7, CHR 0xBB, CHR 0x95] @ '', orbit rotating left around subject''),
    (''Orbit Right'',
      [CHR 0xE5, CHR 0x90, CHR 0x91, CHR 0xE5, CHR 0x8F, CHR 0xB3, CHR 0xE7, CHR 0x8E, CHR 0xAF, CHR 0xE7, CHR 0xBB, CHR 0x95] @ '', orbit rotating right around subject''),
    (''Pan Left'',
      [CHR 0xE5, CHR 0x90, CHR 0x91, CHR 0xE5, CHR 0xB7, CHR 0xA6, CHR 0xE5, CHR 0xB9, CHR 0xB3, CHR 0xE7, CHR 0xA7, CHR 0xBB] @ '', camera pans to the left''),
    (''Pan Right'',
      [CHR 0xE5, CHR 0x90, CHR 0x91, CHR 0xE5, CHR 0x8F, CHR 0xB3, CHR 0xE5, CHR 0xB9, CHR 0xB3, CHR 0xE7, CHR 0xA7, CHR 0xBB] @ '', camera pans to the right''),
    (''FPV Drone'',
      [CHR 0xE7, CHR 0xAC, CHR 0xAC, CHR 0xE4, CHR 0xB8, CHR 0x80, CHR 0xE4, CHR 0xBA, CHR 0xBA, CHR 0xE7, CHR 0xA7, CHR 0xB0, CHR 0xE6, CHR 0x97, CHR 0xA0, CHR 0xE4, CHR 0xBA, CHR 0xBA, CHR 0xE6, CHR 0x9C, CHR 0xBA] @ '', FPV drone shot, dynamic motion''),
    (''Crash Zoom In'',
      [CHR 0xE5, CHR 0xBF, CHR 0xAB, CHR 0xE9, CHR 0x80, CHR 0x9F, CHR 0xE6, CHR 0x8E, CHR 0xA8, CHR 0xE8, CHR 0xBF, CHR 0x9B] @ '', rapid zoom in, dramatic focus''),
    (''Wide Angle'',
      [CHR 0xE5, CHR 0xB9, CHR 0xBF, CHR 0xE8, CHR 0xA7, CHR 0x92, CHR 0xE9, CHR 0x95, CHR 0x9C, CHR 0xE5, CHR 0xA4, CHR 0xB4] @ '', wide angle lens, expansive view''),
    (''Close Up'',
      [CHR 0xE7, CHR 0x89, CHR 0xB9, CHR 0xE5, CHR 0x86, CHR 0x99, CHR 0xE9, CHR 0x95, CHR 0x9C, CHR 0xE5, CHR 0xA4, CHR 0xB4] @ '', close-up shot, tight framing''),
    (''Dutch Angle'',
      [CHR 0xE8, CHR 0x8D, CHR 0xB7, CHR 0xE5, CHR 0x85, CHR 0xB0, CHR 0xE8, CHR 0xA7, CHR 0x92, CHR 0xE5, CHR 0xBA, CHR 0xA6] @ '', tilted angle, canted frame'')
  ]"

definition lighting_presets :: "(pystr \<times> pystr) list" where
  "lighting_presets = [
    (''None'',
      ''''),
    (''Cinematic'',
      ''cinematic lighting, dramatic shadows''),
    (''Soft Natural'',
      ''soft natural lighting, diffused''),
    (''Studio'',
      ''studio lighting setup, professional''),
    (''Sunset'',
      ''warm sunset lighting, golden hour''),
    (''Neon'',
      ''neon lighting, vibrant colors''),
    (''Volumetric'',
      ''volumetric lighting, atmospheric rays'')
  ]"

text \<open>
  \<open>camera_presets.get(camera_preset, camera_preset)\<close>: the default is the key itself,
  whatever its type. \<open>lighting_presets.get(lighting, "")\<close>: the default is the empty
  string, so the result is always a string.
\<close>

definition camera_instruction :: "json \<Rightarrow> exn + json" where
  "camera_instruction camera_preset =
     preset_get (map (\<lambda>(k, v). (k, JStr v)) camera_presets) camera_preset camera_preset"

definition lighting_instruction :: "json \<Rightarrow> exn + pystr" where
  "lighting_instruction lighting = preset_get lighting_presets lighting []"

section \<open>Collaborators of the request handlers\<close>

text \<open>
  The handlers call the JSON parser, the base64 codec and the image library. Their results
  are parameters of the model: each call either returns a value or raises, and a raised
  library exception is represented by its message (\<open>str(e)\<close>). \<open>json_loads\<close> is the one
  call that can raise \<open>JSONDecodeError\<close>. \<open>format_value\<close> is \<open>format(v, "")\<close> of a value
  that is not a string, as an f-string computes it; \<open>interp_message\<close> is \<open>str(e)\<close> of an
  error the interpreter raises itself.
\<close>

record 'img env =
  json_loads :: "pystr \<Rightarrow> exn + json"
  b64decode :: "json \<Rightarrow> pystr + pystr"
  image_open :: "pystr \<Rightarrow> pystr + 'img"
  save_png :: "'img \<Rightarrow> pystr + pystr"
  b64encode :: "pystr \<Rightarrow> pystr"
  format_value :: "json \<Rightarrow> pystr"
  interp_message :: "exn \<Rightarrow> pystr"

definition exn_str :: "'img env \<Rightarrow> exn \<Rightarrow> pystr" where
  "exn_str env e = (case e of LibraryError m \<Rightarrow> m | _ \<Rightarrow> interp_message env e)"

definition fstr :: "'img env \<Rightarrow> json \<Rightarrow> pystr" where
  "fstr env v = (case v of JStr s \<Rightarrow> s | _ \<Rightarrow> format_value env v)"

text \<open>Sequencing inside a \<open>try\<close> block: the first exception ends the block.\<close>

definition seq :: "'e + 'a \<Rightarrow> ('a \<Rightarrow> 'e + 'b) \<Rightarrow> 'e + 'b" where
  "seq m f = (case m of Inl e \<Rightarrow> Inl e | Inr x \<Rightarrow> f x)"

definition lib :: "pystr + 'a \<Rightarrow> exn + 'a" where
  "lib r = (case r of Inl m \<Rightarrow> Inl (LibraryError m) | Inr x \<Rightarrow> Inr x)"

section \<open>Prompt assembly (\<open>camera_edit\<close>, the lines that build \<open>full_prompt\<close>)\<close>

text \<open>\<open>x += s\<close> for a string \<open>s\<close>: concatenation when \<open>x\<close> is a string, \<open>TypeError\<close> otherwise.\<close>

definition iadd_str :: "json \<Rightarrow> pystr \<Rightarrow> exn + json" where
  "iadd_str x s =
     (case x of JStr t \<Rightarrow> Inr (JStr (t @ s)) | _ \<Rightarrow> Inl (UnsupportedOperand (type_of x)))"

definition full_prompt :: "'img env \<Rightarrow> json \<Rightarrow> pystr \<Rightarrow> json \<Rightarrow> exn + json" where
  "full_prompt env camera_instr lighting_instr additional_prompt =
     seq (if lighting_instr \<noteq> [] then iadd_str camera_instr ('', '' @ lighting_instr)
          else Inr camera_instr)
       (\<lambda>fp. if truthy additional_prompt
              then iadd_str fp ('', '' @ fstr env additional_prompt)
              else Inr fp)"

section \<open>Responses\<close>

text \<open>
  A \<open>Response\<close> with its status code, the object handed to \<open>json.dumps\<close> for the body, and
  its headers.
\<close>

record response =
  status_code :: nat
  body :: json
  headers :: "(pystr \<times> pystr) list"

definition json_response :: "nat \<Rightarrow> json \<Rightarrow> response" where
  "json_response code obj =
     \<lparr>status_code = code, body = obj, headers = [(''Content-Type'', ''application/json'')]\<rparr>"

definition error_response :: "nat \<Rightarrow> pystr \<Rightarrow> response" where
  "error_response code msg = json_response code (JObj [(''error'', JStr msg)])"

text \<open>
  The two \<open>except\<close> clauses shared by both handlers. What they hand to \<open>logger.error\<close>
  is not part of the response and is left out.
\<close>

definition handle_exn :: "'img env \<Rightarrow> exn + response \<Rightarrow> response" where
  "handle_exn env r =
     (case r of
        Inr resp \<Rightarrow> resp
      | Inl JSONDecodeError \<Rightarrow> error_response 400 ''Invalid JSON''
      | Inl e \<Rightarrow> error_response 500 (exn_str env e))"

section \<open>\<open>POST /api/v1/edit\<close>\<close>

text \<open>The placeholder inference: decode the image, save it as PNG, encode the bytes.\<close>

definition reencode :: "'img env \<Rightarrow> json \<Rightarrow> exn + pystr" where
  "reencode env image_base64 =
     seq (lib (b64decode env image_base64)) (\<lambda>image_data.
     seq (lib (image_open env image_data)) (\<lambda>image.
     seq (lib (save_png env image)) (\<lambda>output.
     Inr (b64encode env output))))"



section \<open>\<open>POST /api/v1/camera-edit\<close>\<close>

definition camera_edit_try :: "'img env \<Rightarrow> pystr \<Rightarrow> exn + response" where
  "camera_edit_try env request_body =
     seq (json_loads env request_body) (\<lambda>body.
     seq (body_get body ''image'' JNull) (\<lambda>image_base64.
     seq (body_get body ''camera_preset'' (JStr ''Front View'')) (\<lambda>camera_preset.
     seq (body_get body ''lighting'' (JStr ''Cinematic'')) (\<lambda>lighting.
     seq (body_get body ''additional_prompt'' (JStr [])) (\<lambda>additional_prompt.
     seq (body_get body ''steps'' (JInt 8)) (\<lambda>steps.
     seq (body_get body ''use_lightning'' (JBool True)) (\<lambda>use_lightning.
     if \<not> truthy image_base64 then Inr (error_response 400 ''Missing image data'')
     else
       seq (camera_instruction camera_preset) (\<lambda>camera_instr.
       seq (lighting_instruction lighting) (\<lambda>lighting_instr.
       seq (full_prompt env camera_instr lighting_instr additional_prompt) (\<lambda>fp.
       seq (reencode env image_base64) (\<lambda>output_base64.
       Inr (json_response 200 (JObj [
         (''image'', JStr output_base64),
         (''camera_preset'', camera_preset),
         (''lighting'', lighting),
         (''prompt'', fp),
         (''steps'', steps),
         (''lightning'', use_lightning)])))))))))))))"

definition camera_edit :: "'img env \<Rightarrow> pystr \<Rightarrow> response" where
  "camera_edit env request_body = handle_exn env (camera_edit_try env request_body)"

section \<open>Model provisioning\<close>

subsection \<open>Configuration, paths and the process state\<close>

text \<open>The module's constants that are read from the environment at import time.\<close>

record config =
  USE_HUGGINGFACE :: bool
  HUGGINGFACE_MODEL_ID :: pystr
  HF_TOKEN :: pystr
  MINIO_ENDPOINT :: pystr
  MINIO_ACCESS_KEY :: pystr
  MINIO_SECRET_KEY :: pystr
  MINIO_BUCKET_NAME :: pystr
  MINIO_SECURE :: bool

text \<open>\<open>os.path.join\<close> of two components and \<open>os.path.dirname\<close>, as \<open>posixpath\<close> has them.\<close>

definition path_join :: "pystr \<Rightarrow> pystr \<Rightarrow> pystr" where
  "path_join a b =
     (if take 1 b = ''/'' then b
      else if a = [] \<or> last a = CHR ''/'' then a @ b
      else a @ ''/'' @ b)"

definition dirname :: "pystr \<Rightarrow> pystr" where
  "dirname p =
     (let head = rev (dropWhile (\<lambda>c. c \<noteq> CHR ''/'') (rev p))
      in if head \<noteq> [] \<and> head \<noteq> replicate (length head) (CHR ''/'')
         then rev (dropWhile (\<lambda>c. c = CHR ''/'') (rev head))
         else head)"

definition MODEL_CACHE_DIR :: pystr where
  "MODEL_CACHE_DIR = ''/app/models''"

definition HUGGINGFACE_CACHE_DIR :: pystr where
  "HUGGINGFACE_CACHE_DIR = path_join MODEL_CACHE_DIR ''huggingface''"

definition LORA_DIR :: pystr where
  "LORA_DIR = path_join MODEL_CACHE_DIR ''loras''"

text \<open>
  \<open>qwen_model\<close> is \<open>None\<close>, the object \<open>AutoModel.from_pretrained\<close> returned, or the dict
  \<open>{"path": model_path, "loaded": False}\<close> (a dict with these two keys, here with its
  two values).
\<close>

datatype 'm handle = Unset | InMemory 'm | PathDict pystr bool

datatype level = INFO | WARNING | ERROR

text \<open>
  The module's globals, the paths that exist on disk, and what the logger has received,
  oldest first. \<open>lora_models\<close> holds the keys of the dict of that name. \<open>disk\<close> records
  the directories the provisioner creates and the files it fetches, which are the paths
  it tests with \<open>os.path.exists\<close>; what a hub download writes below its cache directory
  is not among them and is not recorded.
\<close>

record ('m, 'c) state =
  minio_client :: "'c option"
  qwen_model :: "'m handle"
  lora_models :: "pystr list"
  disk :: "pystr set"
  log_records :: "(level \<times> pystr) list"

definition logger :: "level \<Rightarrow> pystr \<Rightarrow> ('m, 'c) state \<Rightarrow> ('m, 'c) state" where
  "logger lvl msg st = st\<lparr>log_records := log_records st @ [(lvl, msg)]\<rparr>"

text \<open>
  The outside world of the provisioner: the object-storage client's constructor and its
  \<open>fget_object\<close>, \<open>os.makedirs(path, exist_ok=True)\<close> (\<open>Some\<close> message when it raises), the
  hub's \<open>snapshot_download\<close> (repository, cache directory, token) and
  \<open>AutoModel.from_pretrained\<close> (path, token). A raised exception is its message.
\<close>

datatype fetch = Fetched | S3Error pystr | OtherError pystr

record ('m, 'c) world =
  minio_connect :: "pystr \<Rightarrow> pystr \<Rightarrow> pystr \<Rightarrow> bool \<Rightarrow> pystr + 'c"
  fget_object :: "'c \<Rightarrow> pystr \<Rightarrow> pystr \<Rightarrow> pystr \<Rightarrow> fetch"
  makedirs :: "pystr \<Rightarrow> pystr option"
  snapshot_download :: "pystr \<Rightarrow> pystr \<Rightarrow> pystr option \<Rightarrow> pystr + pystr"
  from_pretrained :: "pystr \<Rightarrow> pystr option \<Rightarrow> pystr + 'm"

text \<open>A call either returns a value or lets an exception out to its caller.\<close>

datatype 'a outcome = Returned 'a | Raised pystr

definition os_makedirs ::
  "('m, 'c) world \<Rightarrow> pystr \<Rightarrow> ('m, 'c) state \<Rightarrow> pystr + ('m, 'c) state" where
  "os_makedirs w p st =
     (case makedirs w p of
        Some e \<Rightarrow> Inl e
      | None \<Rightarrow> Inr (st\<lparr>disk := insert p (disk st)\<rparr>))"

subsection \<open>Module initialisation\<close>

definition initial_state :: "pystr set \<Rightarrow> ('m, 'c) state" where
  "initial_state files =
     \<lparr>minio_client = None, qwen_model = Unset, lora_models = [], disk = files,
      log_records = []\<rparr>"

definition init_minio_client ::
  "('m, 'c) world \<Rightarrow> config \<Rightarrow> ('m, 'c) state \<Rightarrow> ('m, 'c) state" where
  "init_minio_client w cfg st =
     (if MINIO_ACCESS_KEY cfg \<noteq> [] \<and> MINIO_SECRET_KEY cfg \<noteq> [] then
        (case minio_connect w (MINIO_ENDPOINT cfg) (MINIO_ACCESS_KEY cfg)
                (MINIO_SECRET_KEY cfg) (MINIO_SECURE cfg) of
           Inr c \<Rightarrow>
             logger INFO (''Connected to MINIO at '' @ MINIO_ENDPOINT cfg)
               (st\<lparr>minio_client := Some c\<rparr>)
         | Inl e \<Rightarrow> logger ERROR (''Failed to connect to MINIO: '' @ e) st)
      else st)"

definition module_init :: "('m, 'c) world \<Rightarrow> config \<Rightarrow> pystr set \<Rightarrow> ('m, 'c) state" where
  "module_init w cfg files = init_minio_client w cfg (initial_state files)"

subsection \<open>\<open>download_from_minio\<close>\<close>

definition download_from_minio ::
  "('m, 'c) world \<Rightarrow> pystr \<Rightarrow> pystr \<Rightarrow> pystr \<Rightarrow> ('m, 'c) state \<Rightarrow> bool \<times> ('m, 'c) state" where
  "download_from_minio w bucket_name object_name file_path st =
     (case minio_client st of
        None \<Rightarrow> (False, logger WARNING ''MINIO client not initialized'' st)
      | Some c \<Rightarrow>
          (case os_makedirs w (dirname file_path) st of
             Inl e \<Rightarrow>
               (False, logger ERROR (''Error downloading '' @ object_name @ '': '' @ e) st)
           | Inr st1 \<Rightarrow>
               (case fget_object w c bucket_name object_name file_path of
                  Fetched \<Rightarrow>
                    (True,
                     logger INFO
                       (''Downloaded '' @ object_name @ '' from MINIO to '' @ file_path)
                       (st1\<lparr>disk := insert file_path (disk st1)\<rparr>))
                | S3Error e \<Rightarrow>
                    (False,
                     logger ERROR (''MINIO error downloading '' @ object_name @ '': '' @ e) st1)
                | OtherError e \<Rightarrow>
                    (False,
                     logger ERROR (''Error downloading '' @ object_name @ '': '' @ e) st1))))"

subsection \<open>\<open>load_models_from_huggingface\<close>\<close>

definition hf_token :: "config \<Rightarrow> pystr option" where
  "hf_token cfg = (if HF_TOKEN cfg \<noteq> [] then Some (HF_TOKEN cfg) else None)"

definition load_models_from_huggingface ::
  "('m, 'c) world \<Rightarrow> config \<Rightarrow> ('m, 'c) state \<Rightarrow> bool outcome \<times> ('m, 'c) state" where
  "load_models_from_huggingface w cfg st =
     (case os_makedirs w HUGGINGFACE_CACHE_DIR st of
        Inl e \<Rightarrow> (Raised e, st)
      | Inr st0 \<Rightarrow>
          (let st1 = logger INFO
                 (''Downloading Qwen model from Hugging Face: '' @ HUGGINGFACE_MODEL_ID cfg) st0
           in case snapshot_download w (HUGGINGFACE_MODEL_ID cfg) HUGGINGFACE_CACHE_DIR
                     (hf_token cfg) of
                Inl e \<Rightarrow>
                  (Returned False,
                   logger ERROR (''Failed to load models from Hugging Face: '' @ e) st1)
              | Inr model_path \<Rightarrow>
                  (let st2 = logger INFO (''Model downloaded to: '' @ model_path) st1
                   in case from_pretrained w model_path (hf_token cfg) of
                        Inr m \<Rightarrow>
                          (Returned True,
                           logger INFO ''Model loaded into memory successfully''
                             (st2\<lparr>qwen_model := InMemory m\<rparr>))
                      | Inl e \<Rightarrow>
                          (Returned True,
                           (logger WARNING
                              (''Could not load model into memory: '' @ e
                                 @ ''. Will use model path for inference.'') st2)
                             \<lparr>qwen_model := PathDict model_path False\<rparr>))))"

subsection \<open>\<open>load_models_from_minio\<close>\<close>

definition loras :: "pystr list" where
  "loras = [
     ''Qwen-Edit-2509-Multiple-angles.safetensors'',
     ''Qwen-Image-Edit-Lightning-8steps-V1.0.safetensors'']"

text \<open>The \<open>for lora_name in loras\<close> loop; the result of each download is discarded.\<close>

fun download_loras ::
  "('m, 'c) world \<Rightarrow> config \<Rightarrow> pystr list \<Rightarrow> ('m, 'c) state \<Rightarrow> ('m, 'c) state" where
  "download_loras w cfg [] st = st"
| "download_loras w cfg (lora_name # rest) st =
     (let lora_path = path_join LORA_DIR lora_name;
          st' = (if lora_path \<notin> disk st then
                   snd (download_from_minio w (MINIO_BUCKET_NAME cfg)
                          (''loras/'' @ lora_name) lora_path
                          (logger INFO (''Downloading LoRA '' @ lora_name @ '' from MINIO...'') st))
                 else st)
      in download_loras w cfg rest st')"

definition load_models_from_minio ::
  "('m, 'c) world \<Rightarrow> config \<Rightarrow> ('m, 'c) state \<Rightarrow> unit outcome \<times> ('m, 'c) state" where
  "load_models_from_minio w cfg st =
     (case os_makedirs w MODEL_CACHE_DIR st of
        Inl e \<Rightarrow> (Raised e, st)
      | Inr st1 \<Rightarrow>
          (case os_makedirs w LORA_DIR st1 of
             Inl e \<Rightarrow> (Raised e, st1)
           | Inr st2 \<Rightarrow>
               (let qwen_model_path = path_join MODEL_CACHE_DIR ''qwen-image-edit'';
                    st3 = (if qwen_model_path \<notin> disk st2 then
                             snd (download_from_minio w (MINIO_BUCKET_NAME cfg)
                                    ''qwen-image-edit/model.safetensors''
                                    (path_join qwen_model_path ''model.safetensors'')
                                    (logger INFO
                                       ''Downloading Qwen Image Edit model from MINIO...'' st2))
                           else st2);
                    st4 = download_loras w cfg loras st3
                in (Returned (),
                    logger INFO ''Models downloaded from MINIO successfully'' st4))))"

subsection \<open>\<open>load_models\<close> and the startup handler\<close>

text \<open>The check mark of two log lines is U+2713, three bytes in UTF-8.\<close>

definition check_mark :: pystr where
  "check_mark = [CHR 0xE2, CHR 0x9C, CHR 0x93]"

text \<open>The second half of \<open>load_models\<close>, from the comment \<open>Fallback to MINIO\<close> on.\<close>

definition minio_fallback ::
  "('m, 'c) world \<Rightarrow> config \<Rightarrow> ('m, 'c) state \<Rightarrow> unit outcome \<times> ('m, 'c) state" where
  "minio_fallback w cfg st =
     (case minio_client st of
        Some c \<Rightarrow>
          (case load_models_from_minio w cfg
                  (logger INFO ''Loading models from MINIO S3...'' st) of
             (Raised e, st') \<Rightarrow> (Raised e, st')
           | (Returned u, st') \<Rightarrow>
               (Returned (), logger INFO (check_mark @ '' Models loaded from MINIO'') st'))
      | None \<Rightarrow>
          (Returned (),
           logger WARNING ''Neither Hugging Face nor MINIO configured. Models not loaded.'' st))"

definition load_models ::
  "('m, 'c) world \<Rightarrow> config \<Rightarrow> ('m, 'c) state \<Rightarrow> unit outcome \<times> ('m, 'c) state" where
  "load_models w cfg st =
     (if USE_HUGGINGFACE cfg then
        (case load_models_from_huggingface w cfg
                (logger INFO ''Attempting to load models from Hugging Face Hub...'' st) of
           (Raised e, st') \<Rightarrow> (Raised e, st')
         | (Returned True, st') \<Rightarrow>
             (Returned (), logger INFO (check_mark @ '' Models loaded from Hugging Face'') st')
         | (Returned False, st') \<Rightarrow>
             minio_fallback w cfg
               (logger WARNING ''Hugging Face download failed, falling back to MINIO...'' st'))
      else minio_fallback w cfg st)"

definition startup ::
  "('m, 'c) world \<Rightarrow> config \<Rightarrow> ('m, 'c) state \<Rightarrow> unit outcome \<times> ('m, 'c) state" where
  "startup w cfg st =
     (case load_models w cfg (logger INFO ''Starting Qwen API service...'' st) of
        (Raised e, st') \<Rightarrow> (Raised e, st')
      | (Returned u, st') \<Rightarrow> (Returned (), logger INFO ''Qwen API service started'' st'))"

section \<open>\<open>GET /api/v1/models\<close>\<close>

definition list_models :: "config \<Rightarrow> ('m, 'c) state \<Rightarrow> response" where
  "list_models cfg st =
     (let loaded0 = JBool (qwen_model st \<noteq> Unset);
          source = JStr (if USE_HUGGINGFACE cfg then ''huggingface'' else ''minio'');
          model_id = (if USE_HUGGINGFACE cfg then JStr (HUGGINGFACE_MODEL_ID cfg) else JNull);
          path0 = JStr (if USE_HUGGINGFACE cfg then HUGGINGFACE_CACHE_DIR else MODEL_CACHE_DIR);
          (loaded, path) =
             (case qwen_model st of
                PathDict p b \<Rightarrow> (JBool b, JStr p)
              | _ \<Rightarrow> (loaded0, path0));
          model_info = JObj [
            (''loaded'', loaded), (''source'', source), (''model_id'', model_id),
            (''path'', path)]
      in json_response 200 (JObj [
           (''qwen_image_edit'', model_info),
           (''loras'', JObj [
              (''available'', JArr (map JStr (lora_models st))),
              (''path'', JStr LORA_DIR)]),
           (''cache_dirs'', JObj [
              (''huggingface'', JStr HUGGINGFACE_CACHE_DIR),
              (''minio'', JStr MODEL_CACHE_DIR),
              (''loras'', JStr LORA_DIR)])]))"

text \<open>Reading a member of a JSON object, for statements about response bodies.\<close>

definition field_of :: "json \<Rightarrow> pystr \<Rightarrow> json option" where
  "field_of obj key = (case obj of JObj kvs \<Rightarrow> map_of kvs key | _ \<Rightarrow> None)"

section \<open>A closed instance of the collaborators\<close>

text \<open>
  CPython's wording of the interpreter's own errors, with the type names it prints.
\<close>

definition type_name :: "pytype \<Rightarrow> pystr" where
  "type_name t =
     (case t of TNone \<Rightarrow> ''NoneType'' | TBool \<Rightarrow> ''bool'' | TInt \<Rightarrow> ''int''
      | TFloat \<Rightarrow> ''float'' | TStr \<Rightarrow> ''str'' | TList \<Rightarrow> ''list'' | TDict \<Rightarrow> ''dict'')"

definition quoted :: "pystr \<Rightarrow> pystr" where
  "quoted s = [CHR 0x27] @ s @ [CHR 0x27]"

definition cpython_message :: "exn \<Rightarrow> pystr" where
  "cpython_message e =
     (case e of
        JSONDecodeError \<Rightarrow> ''Expecting value: line 1 column 1 (char 0)''
      | AttributeError t \<Rightarrow>
          quoted (type_name t) @ '' object has no attribute '' @ quoted ''get''
      | Unhashable t \<Rightarrow> ''unhashable type: '' @ quoted (type_name t)
      | UnsupportedOperand t \<Rightarrow>
          ''unsupported operand type(s) for +=: '' @ quoted (type_name t) @ '' and ''
            @ quoted ''str''
      | LibraryError m \<Rightarrow> m)"

text \<open>
  An instance on which the handlers can be evaluated: the request texts it parses are
  listed with their parsed values and every other text is taken as malformed; an image is stored
  as its bytes, its PNG file is those bytes, and the transfer encoding leaves them as
  they are.
\<close>

definition sample_requests :: "(pystr \<times> json) list" where
  \<open>sample_requests = [
     (''[]'', JArr []),
     (''{"image": "PNG1", "camera_preset": "Front View", "lighting": "Cinematic", "additional_prompt": ""}'',
      JObj [(''image'', JStr ''PNG1''), (''camera_preset'', JStr ''Front View''),
            (''lighting'', JStr ''Cinematic''), (''additional_prompt'', JStr [])]),
     (''{"image": "PNG1", "camera_preset": "My Custom Shot", "lighting": "None", "additional_prompt": ""}'',
      JObj [(''image'', JStr ''PNG1''), (''camera_preset'', JStr ''My Custom Shot''),
            (''lighting'', JStr ''None''), (''additional_prompt'', JStr [])]),
     (''{"image": "PNG1", "prompt": "make it blue"}'',
      JObj [(''image'', JStr ''PNG1''), (''prompt'', JStr ''make it blue'')]),
     (''{"prompt": "make it blue"}'',
      JObj [(''prompt'', JStr ''make it blue'')]),
     (''{"image": 5}'',
      JObj [(''image'', JInt 5)]),
     (''{"image": "CMYK1"}'',
      JObj [(''image'', JStr ''CMYK1'')]),
     (''{"image": "PNG1", "camera_preset": ["Front View"]}'',
      JObj [(''image'', JStr ''PNG1''), (''camera_preset'', JArr [JStr ''Front View''])]),
     (''{"image": "PNG1", "camera_preset": 7}'',
      JObj [(''image'', JStr ''PNG1''), (''camera_preset'', JInt 7)]),
     (''{"image": "PNG1", "camera_preset": "Dutch Angle", "lighting": "Neon", "additional_prompt": "rainy street"}'',
      JObj [(''image'', JStr ''PNG1''), (''camera_preset'', JStr ''Dutch Angle''),
            (''lighting'', JStr ''Neon''), (''additional_prompt'', JStr ''rainy street'')])]\<close>

definition sample_env :: "pystr env" where
  "sample_env =
     \<lparr>json_loads = (\<lambda>text. case map_of sample_requests text of
                               Some v \<Rightarrow> Inr v | None \<Rightarrow> Inl JSONDecodeError),
      b64decode = (\<lambda>v. case v of
                         JStr s \<Rightarrow> Inr s
                       | _ \<Rightarrow> Inl (''argument should be a bytes-like object or ASCII string, not ''
                                   @ quoted (type_name (type_of v)))),
      image_open = (\<lambda>data. if data = [] then Inl ''cannot identify image file'' else Inr data),
      save_png = Inr,
      b64encode = (\<lambda>data. data),
      format_value = (\<lambda>v. []),
      interp_message = cpython_message\<rparr>"




section \<open>Closed instances of the provisioner's world\<close>

text \<open>
  Two configurations: the defaults of the source (the hub selected, no storage
  credentials), and one that deselects the hub and has both credentials.
\<close>

definition hub_config :: config where
  "hub_config =
     \<lparr>USE_HUGGINGFACE = True, HUGGINGFACE_MODEL_ID = ''Qwen/Qwen2-VL-2B-Instruct'',
      HF_TOKEN = [], MINIO_ENDPOINT = ''localhost:9000'', MINIO_ACCESS_KEY = [],
      MINIO_SECRET_KEY = [], MINIO_BUCKET_NAME = ''qwen-models'', MINIO_SECURE = False\<rparr>"

definition minio_config :: config where
  "minio_config =
     \<lparr>USE_HUGGINGFACE = False, HUGGINGFACE_MODEL_ID = ''Qwen/Qwen2-VL-2B-Instruct'',
      HF_TOKEN = [], MINIO_ENDPOINT = ''localhost:9000'', MINIO_ACCESS_KEY = ''access'',
      MINIO_SECRET_KEY = ''secret'', MINIO_BUCKET_NAME = ''qwen-models'',
      MINIO_SECURE = False\<rparr>"

text \<open>
  Two worlds in which directories can be created and every object fetch succeeds: one
  where the hub cannot be reached, one where the hub download succeeds and the model
  does not fit into memory.
\<close>

definition offline_world :: "(unit, unit) world" where
  "offline_world =
     \<lparr>minio_connect = (\<lambda>endpoint access_key secret_key secure. Inr ()),
      fget_object = (\<lambda>c bucket object_name file_path. Fetched),
      makedirs = (\<lambda>p. None),
      snapshot_download = (\<lambda>repo_id cache_dir token. Inl ''Connection refused''),
      from_pretrained = (\<lambda>model_path token. Inl ''not enough memory'')\<rparr>"

definition online_world :: "(unit, unit) world" where
  "online_world =
     \<lparr>minio_connect = (\<lambda>endpoint access_key secret_key secure. Inr ()),
      fget_object = (\<lambda>c bucket object_name file_path. Fetched),
      makedirs = (\<lambda>p. None),
      snapshot_download = (\<lambda>repo_id cache_dir token. Inr (path_join cache_dir ''snapshot'')),
      from_pretrained = (\<lambda>model_path token. Inl ''not enough memory'')\<rparr>"

text \<open>
  A configuration that selects the hub and has both storage credentials, and a world in
  which the hub's cache directory cannot be created (a regular file has its name) while
  every other directory can, the hub can be reached and every object fetch succeeds.
\<close>

definition hub_minio_config :: config where
  "hub_minio_config =
     \<lparr>USE_HUGGINGFACE = True, HUGGINGFACE_MODEL_ID = ''Qwen/Qwen2-VL-2B-Instruct'',
      HF_TOKEN = [], MINIO_ENDPOINT = ''localhost:9000'', MINIO_ACCESS_KEY = ''access'',
      MINIO_SECRET_KEY = ''secret'', MINIO_BUCKET_NAME = ''qwen-models'',
      MINIO_SECURE = False\<rparr>"

definition blocked_cache_world :: "(unit, unit) world" where
  "blocked_cache_world =
     \<lparr>minio_connect = (\<lambda>endpoint access_key secret_key secure. Inr ()),
      fget_object = (\<lambda>c bucket object_name file_path. Fetched),
      makedirs = (\<lambda>p. if p = HUGGINGFACE_CACHE_DIR
                         then Some (''[Errno 17] File exists: '' @ quoted p) else None),
      snapshot_download = (\<lambda>repo_id cache_dir token. Inr (path_join cache_dir ''snapshot'')),
      from_pretrained = (\<lambda>model_path token. Inl ''not enough memory'')\<rparr>"

section \<open>Properties\<close>

subsection \<open>Auxiliary facts\<close>

lemma seq_simps [simp]: "seq (Inl e) f = Inl e" "seq (Inr x) f = f x"
  by (simp_all add: seq_def)

lemma lib_simps [simp]: "lib (Inl m) = Inl (LibraryError m)" "lib (Inr x) = Inr x"
  by (simp_all add: lib_def)

lemma map_of_miss: "k \<notin> fst ` set table \<Longrightarrow> map_of table k = None"
  by (simp add: map_of_eq_None_iff)

lemma preset_get_miss:
  "name \<notin> fst ` set table \<Longrightarrow> preset_get table (JStr name) d = Inr d"
  by (simp add: preset_get_def dict_get_def map_of_miss)

subsection \<open>Preset resolution\<close>

text \<open>
  Claim C1. A camera-preset name that is not a key of the camera table resolves to the
  name itself, unchanged; a lighting-preset name that is not a key of the lighting table
  resolves to the empty string. Both hold for every string.
\<close>

theorem preset_miss_asymmetry:
  "(name \<notin> fst ` set camera_presets \<longrightarrow>
      camera_instruction (JStr name) = Inr (JStr name)) \<and>
   (name \<notin> fst ` set lighting_presets \<longrightarrow>
      lighting_instruction (JStr name) = Inr [])"
proof (intro conjI impI)
  assume miss: "name \<notin> fst ` set camera_presets"
  have "fst ` set (map (\<lambda>(k, v). (k, JStr v)) camera_presets) = fst ` set camera_presets"
    by (force simp: image_iff)
  with miss show "camera_instruction (JStr name) = Inr (JStr name)"
    unfolding camera_instruction_def by (simp add: preset_get_miss)
next
  assume "name \<notin> fst ` set lighting_presets"
  then show "lighting_instruction (JStr name) = Inr []"
    unfolding lighting_instruction_def by (rule preset_get_miss)
qed

theorem preset_miss_asymmetry_witness:
  "''My Custom Shot'' \<notin> fst ` set camera_presets \<and>
   camera_instruction (JStr ''My Custom Shot'') = Inr (JStr ''My Custom Shot'') \<and>
   ''My Custom Shot'' \<notin> fst ` set lighting_presets \<and>
   lighting_instruction (JStr ''My Custom Shot'') = Inr []"
proof -
  have c: "''My Custom Shot'' \<notin> fst ` set camera_presets"
    by (simp add: camera_presets_def)
  have l: "''My Custom Shot'' \<notin> fst ` set lighting_presets"
    by (simp add: lighting_presets_def)
  from c l preset_miss_asymmetry [of "''My Custom Shot''"] show ?thesis by blast
qed

subsection \<open>Prompt assembly\<close>

text \<open>
  Claim C2. For strings, the assembled prompt is the camera instruction, then a comma, a
  space and the lighting instruction exactly when that one is not empty, then a comma, a
  space and the additional text exactly when that one is not empty, in this order. The
  three instances of the specification follow.
\<close>

theorem full_prompt_order:
  "full_prompt env (JStr c) l (JStr a) =
     Inr (JStr (c @ (if l \<noteq> [] then '', '' @ l else [])
                  @ (if a \<noteq> [] then '', '' @ a else [])))
   \<and> full_prompt env (JStr ''A'') ''B'' (JStr ''C'') = Inr (JStr ''A, B, C'')
   \<and> full_prompt env (JStr ''A'') [] (JStr ''C'') = Inr (JStr ''A, C'')
   \<and> full_prompt env (JStr ''A'') [] (JStr []) = Inr (JStr ''A'')"
  by (simp add: full_prompt_def iadd_str_def fstr_def)

subsection \<open>Auxiliary facts about the handlers\<close>

lemma body_get_obj [simp]: "body_get (JObj kvs) key d = Inr (dict_get kvs key d)"
  by (simp add: body_get_def)


lemma handle_exn_simps [simp]:
  "handle_exn env (Inr r) = r"
  "handle_exn env (Inl JSONDecodeError) = error_response 400 ''Invalid JSON''"
  "e \<noteq> JSONDecodeError \<Longrightarrow> handle_exn env (Inl e) = error_response 500 (exn_str env e)"
  by (cases e; simp add: handle_exn_def)+

lemma response_simps [simp]:
  "status_code (json_response c obj) = c" "body (json_response c obj) = obj"
  "status_code (error_response c m) = c" "body (error_response c m) = JObj [(''error'', JStr m)]"
  by (simp_all add: json_response_def error_response_def)

lemma error_response_eq [simp]:
  "(error_response c m = error_response c' m') = (c = c' \<and> m = m')"
  by (auto simp: json_response_def error_response_def)

lemma seq_Inl_iff: "(seq m f = Inl e) = (m = Inl e \<or> (\<exists>x. m = Inr x \<and> f x = Inl e))"
  by (cases m) simp_all


lemma field_of_obj [simp]: "field_of (JObj kvs) key = map_of kvs key"
  by (simp add: field_of_def)

text \<open>Only \<open>json.loads\<close> raises \<open>JSONDecodeError\<close>.\<close>

lemma lib_no_decode_error: "lib r \<noteq> Inl JSONDecodeError"
  by (cases r) simp_all

lemma reencode_no_decode_error: "reencode env v \<noteq> Inl JSONDecodeError"
  by (simp add: reencode_def seq_Inl_iff lib_no_decode_error)











lemma camera_edit_try_raise:
  "json_loads env rb = Inl e \<Longrightarrow> camera_edit_try env rb = Inl e"
  by (simp add: camera_edit_try_def)

lemma camera_edit_try_not_dict:
  "json_loads env rb = Inr b \<Longrightarrow> type_of b \<noteq> TDict \<Longrightarrow>
   camera_edit_try env rb = Inl (AttributeError (type_of b))"
  by (cases b) (simp_all add: camera_edit_try_def body_get_def)

lemma camera_edit_try_missing:
  "json_loads env rb = Inr (JObj kvs) \<Longrightarrow> \<not> truthy (dict_get kvs ''image'' JNull) \<Longrightarrow>
   camera_edit_try env rb = Inr (error_response 400 ''Missing image data'')"
  by (simp add: camera_edit_try_def)

lemma camera_edit_try_image:
  assumes "json_loads env rb = Inr (JObj kvs)" and "truthy (dict_get kvs ''image'' JNull)"
  shows "camera_edit_try env rb =
     seq (camera_instruction (dict_get kvs ''camera_preset'' (JStr ''Front View''))) (\<lambda>camera_instr.
     seq (lighting_instruction (dict_get kvs ''lighting'' (JStr ''Cinematic''))) (\<lambda>lighting_instr.
     seq (full_prompt env camera_instr lighting_instr
            (dict_get kvs ''additional_prompt'' (JStr []))) (\<lambda>fp.
     seq (reencode env (dict_get kvs ''image'' JNull)) (\<lambda>output_base64.
       Inr (json_response 200 (JObj [
         (''image'', JStr output_base64),
         (''camera_preset'', dict_get kvs ''camera_preset'' (JStr ''Front View'')),
         (''lighting'', dict_get kvs ''lighting'' (JStr ''Cinematic'')),
         (''prompt'', fp),
         (''steps'', dict_get kvs ''steps'' (JInt 8)),
         (''lightning'', dict_get kvs ''use_lightning'' (JBool True))]))))))"
  using assms by (simp add: camera_edit_try_def)



lemma reencode_success:
  assumes "b64decode env encoded = Inr data" and "image_open env data = Inr img"
    and "save_png env img = Inr png"
  shows "reencode env encoded = Inr (b64encode env png)"
  using assms by (simp add: reencode_def)

lemma handle_exn_200:
  assumes "status_code (handle_exn env t) = 200"
  obtains r where "t = Inr r" and "status_code r = 200"
proof (cases t)
  case (Inl e)
  with assms show ?thesis by (cases "e = JSONDecodeError") simp_all
next
  case (Inr r)
  with assms that show ?thesis by simp
qed




lemma sample_front_view:
  \<open>json_loads sample_env ''{"image": "PNG1", "camera_preset": "Front View", "lighting": "Cinematic", "additional_prompt": ""}''
   = Inr (JObj [(''image'', JStr ''PNG1''), (''camera_preset'', JStr ''Front View''),
            (''lighting'', JStr ''Cinematic''), (''additional_prompt'', JStr [])])\<close>
  by (simp add: sample_env_def sample_requests_def)

lemma sample_custom_shot:
  \<open>json_loads sample_env ''{"image": "PNG1", "camera_preset": "My Custom Shot", "lighting": "None", "additional_prompt": ""}''
   = Inr (JObj [(''image'', JStr ''PNG1''), (''camera_preset'', JStr ''My Custom Shot''),
            (''lighting'', JStr ''None''), (''additional_prompt'', JStr [])])\<close>
  by (simp add: sample_env_def sample_requests_def)


lemma sample_codec:
  "b64decode sample_env (JStr s) = Inr s"
  "s \<noteq> [] \<Longrightarrow> image_open sample_env s = Inr s"
  "save_png sample_env s = Inr s"
  "b64encode sample_env s = s"
  by (simp_all add: sample_env_def)

text \<open>The two presets of the scenarios, and the two that resolve to nothing more.\<close>

lemma camera_instruction_front_view:
  "camera_instruction (JStr ''Front View'') =
     Inr (JStr ([CHR 0xE6, CHR 0xAD, CHR 0xA3, CHR 0xE9, CHR 0x9D, CHR 0xA2,
                 CHR 0xE8, CHR 0xA7, CHR 0x86, CHR 0xE8, CHR 0xA7, CHR 0x92]
                @ '', front view, facing camera directly''))"
  by (simp add: camera_instruction_def preset_get_def dict_get_def camera_presets_def)

lemma lighting_instruction_cinematic:
  "lighting_instruction (JStr ''Cinematic'') = Inr ''cinematic lighting, dramatic shadows''"
  by (simp add: lighting_instruction_def preset_get_def dict_get_def lighting_presets_def)

lemma lighting_instruction_none: "lighting_instruction (JStr ''None'') = Inr []"
  by (simp add: lighting_instruction_def preset_get_def dict_get_def lighting_presets_def)

lemma camera_instruction_custom:
  "camera_instruction (JStr ''My Custom Shot'') = Inr (JStr ''My Custom Shot'')"
  by (simp add: camera_instruction_def preset_get_def dict_get_def camera_presets_def)

subsection \<open>The handlers, case by case\<close>

text \<open>Resolution and assembly, case by case on the types of the request's values.\<close>

lemma dict_get_map:
  "dict_get (map (\<lambda>(k, v). (k, f v)) table) key (f d) = f (dict_get table key d)"
  by (induction table) (auto simp: dict_get_def)

lemma camera_instruction_cases:
  "camera_instruction cp =
     (if type_of cp = TList \<or> type_of cp = TDict then Inl (Unhashable (type_of cp))
      else Inr (case cp of JStr name \<Rightarrow> JStr (dict_get camera_presets name name) | _ \<Rightarrow> cp))"
  by (cases cp) (simp_all add: camera_instruction_def preset_get_def dict_get_map)

lemma lighting_instruction_cases:
  "lighting_instruction li =
     (if type_of li = TList \<or> type_of li = TDict then Inl (Unhashable (type_of li))
      else Inr (case li of JStr name \<Rightarrow> dict_get lighting_presets name [] | _ \<Rightarrow> []))"
  by (cases li) (simp_all add: lighting_instruction_def preset_get_def)

lemma full_prompt_cases:
  "full_prompt env ci lf ap =
     (if lf = [] \<and> \<not> truthy ap then Inr ci
      else case ci of
             JStr c \<Rightarrow>
               Inr (JStr (c @ (if lf \<noteq> [] then '', '' @ lf else [])
                            @ (if truthy ap then '', '' @ fstr env ap else [])))
           | _ \<Rightarrow> Inl (UnsupportedOperand (type_of ci)))"
  by (cases ci) (simp_all add: full_prompt_def iadd_str_def)


lemma exn_str_library [simp]: "exn_str env (LibraryError m) = m"
  by (simp add: exn_str_def)


lemma camera_edit_raise:
  "json_loads env rb = Inl e \<Longrightarrow>
   camera_edit env rb = (if e = JSONDecodeError then error_response 400 ''Invalid JSON''
                         else error_response 500 (exn_str env e))"
  by (simp add: camera_edit_def camera_edit_try_raise)


lemma camera_edit_not_dict:
  "json_loads env rb = Inr b \<Longrightarrow> type_of b \<noteq> TDict \<Longrightarrow>
   camera_edit env rb = error_response 500 (exn_str env (AttributeError (type_of b)))"
  by (simp add: camera_edit_def camera_edit_try_not_dict)


lemma camera_edit_missing:
  "json_loads env rb = Inr (JObj kvs) \<Longrightarrow> \<not> truthy (dict_get kvs ''image'' JNull) \<Longrightarrow>
   camera_edit env rb = error_response 400 ''Missing image data''"
  by (simp add: camera_edit_def camera_edit_try_missing)


lemma camera_edit_unhashable_camera:
  assumes "json_loads env rb = Inr (JObj kvs)" and "truthy (dict_get kvs ''image'' JNull)"
    and "type_of (dict_get kvs ''camera_preset'' (JStr ''Front View'')) = TList
         \<or> type_of (dict_get kvs ''camera_preset'' (JStr ''Front View'')) = TDict"
  shows "camera_edit env rb = error_response 500
     (exn_str env (Unhashable (type_of (dict_get kvs ''camera_preset'' (JStr ''Front View'')))))"
  using assms(3)
  by (simp add: camera_edit_def camera_edit_try_image [OF assms(1,2)] camera_instruction_cases)

lemma camera_edit_unhashable_lighting:
  assumes "json_loads env rb = Inr (JObj kvs)" and "truthy (dict_get kvs ''image'' JNull)"
    and "type_of (dict_get kvs ''camera_preset'' (JStr ''Front View'')) \<noteq> TList"
    and "type_of (dict_get kvs ''camera_preset'' (JStr ''Front View'')) \<noteq> TDict"
    and "type_of (dict_get kvs ''lighting'' (JStr ''Cinematic'')) = TList
         \<or> type_of (dict_get kvs ''lighting'' (JStr ''Cinematic'')) = TDict"
  shows "camera_edit env rb = error_response 500
     (exn_str env (Unhashable (type_of (dict_get kvs ''lighting'' (JStr ''Cinematic'')))))"
  using assms(3-5)
  by (simp add: camera_edit_def camera_edit_try_image [OF assms(1,2)] camera_instruction_cases
      lighting_instruction_cases)

lemma camera_edit_operand:
  assumes "json_loads env rb = Inr (JObj kvs)" and "truthy (dict_get kvs ''image'' JNull)"
    and cp: "cp = dict_get kvs ''camera_preset'' (JStr ''Front View'')"
    and li: "li = dict_get kvs ''lighting'' (JStr ''Cinematic'')"
    and ap: "ap = dict_get kvs ''additional_prompt'' (JStr [])"
    and "type_of cp \<noteq> TList" "type_of cp \<noteq> TDict" "type_of cp \<noteq> TStr"
    and "type_of li \<noteq> TList" "type_of li \<noteq> TDict"
    and "(case li of JStr name \<Rightarrow> dict_get lighting_presets name [] | _ \<Rightarrow> []) \<noteq> []
         \<or> truthy ap"
  shows "camera_edit env rb =
     error_response 500 (exn_str env (UnsupportedOperand (type_of cp)))"
proof -
  have "full_prompt env cp (case li of JStr name \<Rightarrow> dict_get lighting_presets name [] | _ \<Rightarrow> []) ap
        = Inl (UnsupportedOperand (type_of cp))"
    using assms(6-8,11) by (cases cp) (auto simp: full_prompt_cases)
  moreover have "camera_instruction cp = Inr cp"
    using assms(6-8) by (cases cp) (simp_all add: camera_instruction_cases)
  ultimately show ?thesis
    using assms(9,10)
    by (simp add: camera_edit_def camera_edit_try_image [OF assms(1,2)]
        lighting_instruction_cases cp [symmetric] li [symmetric] ap [symmetric])
qed

lemma camera_edit_image:
  assumes "json_loads env rb = Inr (JObj kvs)" and "truthy (dict_get kvs ''image'' JNull)"
    and cp: "cp = dict_get kvs ''camera_preset'' (JStr ''Front View'')"
    and li: "li = dict_get kvs ''lighting'' (JStr ''Cinematic'')"
    and ap: "ap = dict_get kvs ''additional_prompt'' (JStr [])"
    and lf: "lf = (case li of JStr name \<Rightarrow> dict_get lighting_presets name [] | _ \<Rightarrow> [])"
    and "type_of cp \<noteq> TList" "type_of cp \<noteq> TDict"
    and "type_of li \<noteq> TList" "type_of li \<noteq> TDict"
    and "type_of cp = TStr \<or> (lf = [] \<and> \<not> truthy ap)"
  shows "camera_edit env rb =
     (case reencode env (dict_get kvs ''image'' JNull) of
        Inl e \<Rightarrow> error_response 500 (exn_str env e)
      | Inr out \<Rightarrow> json_response 200 (JObj [
          (''image'', JStr out),
          (''camera_preset'', cp),
          (''lighting'', li),
          (''prompt'',
             case cp of
               JStr name \<Rightarrow>
                 JStr (dict_get camera_presets name name
                       @ (if lf \<noteq> [] then '', '' @ lf else [])
                       @ (if truthy ap then '', '' @ fstr env ap else []))
             | _ \<Rightarrow> cp),
          (''steps'', dict_get kvs ''steps'' (JInt 8)),
          (''lightning'', dict_get kvs ''use_lightning'' (JBool True))]))"
proof -
  let ?fp = "case cp of
               JStr name \<Rightarrow>
                 JStr (dict_get camera_presets name name
                       @ (if lf \<noteq> [] then '', '' @ lf else [])
                       @ (if truthy ap then '', '' @ fstr env ap else []))
             | _ \<Rightarrow> cp"
  have ci: "camera_instruction cp =
      Inr (case cp of JStr name \<Rightarrow> JStr (dict_get camera_presets name name) | _ \<Rightarrow> cp)"
    using assms(7,8) by (simp add: camera_instruction_cases)
  have l: "lighting_instruction li = Inr lf"
    using assms(9,10) by (simp add: lighting_instruction_cases lf)
  have fp: "full_prompt env
      (case cp of JStr name \<Rightarrow> JStr (dict_get camera_presets name name) | _ \<Rightarrow> cp) lf ap
      = Inr ?fp"
    using assms(11) by (cases cp) (auto simp: full_prompt_cases)
  show ?thesis
  proof (cases "reencode env (dict_get kvs ''image'' JNull)")
    case (Inl e)
    with reencode_no_decode_error [of env "dict_get kvs ''image'' JNull"]
    have "e \<noteq> JSONDecodeError" by auto
    with Inl ci l fp show ?thesis
      by (simp add: camera_edit_def camera_edit_try_image [OF assms(1,2)]
          cp [symmetric] li [symmetric] ap [symmetric])
  next
    case (Inr out)
    with ci l fp show ?thesis
      by (simp add: camera_edit_def camera_edit_try_image [OF assms(1,2)]
          cp [symmetric] li [symmetric] ap [symmetric])
  qed
qed









lemma dict_get_list:
  "dict_get [] key d = d"
  "dict_get ((k, v) # kvs) key d = (if key = k then v else dict_get kvs key d)"
  by (simp_all add: dict_get_def)




lemma sample_dutch:
  \<open>json_loads sample_env ''{"image": "PNG1", "camera_preset": "Dutch Angle", "lighting": "Neon", "additional_prompt": "rainy street"}''
   = Inr (JObj [(''image'', JStr ''PNG1''), (''camera_preset'', JStr ''Dutch Angle''),
            (''lighting'', JStr ''Neon''), (''additional_prompt'', JStr ''rainy street'')])\<close>
  by (simp add: sample_env_def sample_requests_def)

lemma presets_dutch_neon:
  "dict_get camera_presets ''Dutch Angle'' ''Dutch Angle'' =
     [CHR 0xE8, CHR 0x8D, CHR 0xB7, CHR 0xE5, CHR 0x85, CHR 0xB0,
      CHR 0xE8, CHR 0xA7, CHR 0x92, CHR 0xE5, CHR 0xBA, CHR 0xA6]
     @ '', tilted angle, canted frame''"
  "dict_get lighting_presets ''Neon'' [] = ''neon lighting, vibrant colors''"
  by (simp_all add: dict_get_def camera_presets_def lighting_presets_def)

subsection \<open>Status codes of the two edit endpoints\<close>




subsection \<open>The placeholder returns the input image\<close>




subsection \<open>What a successful camera-edit response echoes\<close>

text \<open>
  Claim C6. Every status-200 response of the camera-edit endpoint comes from a request
  whose body is a JSON object. Its \<open>camera_preset\<close> and \<open>lighting\<close> members are the
  values of the request (the defaults \<open>Front View\<close> and \<open>Cinematic\<close> where the request has
  none), not the resolved fragments: in both tables every fragment differs from its
  name. Its \<open>prompt\<close> member is the assembled instruction: for a camera preset that is a
  string, the fragment the camera table has for it (the name itself when the table has
  none), then a comma, a space and the fragment the lighting table has for the lighting
  when that fragment is not empty, then a comma, a space and the additional prompt when
  that is not empty; a camera preset that is not a string reaches status 200 only when
  nothing is appended, and is then the prompt.
\<close>

theorem camera_edit_echo:
  assumes ok: "status_code (camera_edit env rb) = 200"
  shows "(\<exists>kvs cp li ap lf.
     json_loads env rb = Inr (JObj kvs)
     \<and> cp = dict_get kvs ''camera_preset'' (JStr ''Front View'')
     \<and> li = dict_get kvs ''lighting'' (JStr ''Cinematic'')
     \<and> ap = dict_get kvs ''additional_prompt'' (JStr [])
     \<and> lf = (case li of JStr name \<Rightarrow> dict_get lighting_presets name [] | _ \<Rightarrow> [])
     \<and> field_of (body (camera_edit env rb)) ''camera_preset'' = Some cp
     \<and> field_of (body (camera_edit env rb)) ''lighting'' = Some li
     \<and> field_of (body (camera_edit env rb)) ''prompt'' =
         Some (case cp of
                 JStr name \<Rightarrow>
                   JStr (dict_get camera_presets name name
                         @ (if lf \<noteq> [] then '', '' @ lf else [])
                         @ (if truthy ap then '', '' @ fstr env ap else []))
               | _ \<Rightarrow> cp))
   \<and> (\<forall>(name, fragment) \<in> set camera_presets. fragment \<noteq> name)
   \<and> (\<forall>(name, fragment) \<in> set lighting_presets. fragment \<noteq> name)"
proof (intro conjI)
  show "\<forall>(name, fragment) \<in> set camera_presets. fragment \<noteq> name"
    by (simp add: camera_presets_def)
  show "\<forall>(name, fragment) \<in> set lighting_presets. fragment \<noteq> name"
    by (simp add: lighting_presets_def)
  show "\<exists>kvs cp li ap lf.
     json_loads env rb = Inr (JObj kvs)
     \<and> cp = dict_get kvs ''camera_preset'' (JStr ''Front View'')
     \<and> li = dict_get kvs ''lighting'' (JStr ''Cinematic'')
     \<and> ap = dict_get kvs ''additional_prompt'' (JStr [])
     \<and> lf = (case li of JStr name \<Rightarrow> dict_get lighting_presets name [] | _ \<Rightarrow> [])
     \<and> field_of (body (camera_edit env rb)) ''camera_preset'' = Some cp
     \<and> field_of (body (camera_edit env rb)) ''lighting'' = Some li
     \<and> field_of (body (camera_edit env rb)) ''prompt'' =
         Some (case cp of
                 JStr name \<Rightarrow>
                   JStr (dict_get camera_presets name name
                         @ (if lf \<noteq> [] then '', '' @ lf else [])
                         @ (if truthy ap then '', '' @ fstr env ap else []))
               | _ \<Rightarrow> cp)"
  proof (cases "json_loads env rb")
    case (Inl e)
    with ok show ?thesis by (simp add: camera_edit_raise split: if_splits)
  next
    case (Inr b)
    show ?thesis
    proof (cases "type_of b = TDict")
      case False
      with Inr ok show ?thesis by (simp add: camera_edit_not_dict)
    next
      case True
      then obtain kvs where b: "b = JObj kvs" by (cases b) auto
      with Inr have l: "json_loads env rb = Inr (JObj kvs)" by simp
      define cp where "cp = dict_get kvs ''camera_preset'' (JStr ''Front View'')"
      define li where "li = dict_get kvs ''lighting'' (JStr ''Cinematic'')"
      define ap where "ap = dict_get kvs ''additional_prompt'' (JStr [])"
      define lf where "lf = (case li of JStr name \<Rightarrow> dict_get lighting_presets name [] | _ \<Rightarrow> [])"
      show ?thesis
      proof (cases "truthy (dict_get kvs ''image'' JNull)")
        case False
        with l ok show ?thesis by (simp add: camera_edit_missing)
      next
        case t: True
        have c1: "type_of cp \<noteq> TList \<and> type_of cp \<noteq> TDict"
          using ok camera_edit_unhashable_camera [OF l t] by (auto simp: cp_def)
        have c2: "type_of li \<noteq> TList \<and> type_of li \<noteq> TDict"
          using ok c1 camera_edit_unhashable_lighting [OF l t] by (auto simp: cp_def li_def)
        have c3: "type_of cp = TStr \<or> (lf = [] \<and> \<not> truthy ap)"
        proof (rule ccontr)
          assume "\<not> ?thesis"
          with c1 c2 have "camera_edit env rb =
              error_response 500 (exn_str env (UnsupportedOperand (type_of cp)))"
            by (intro camera_edit_operand [OF l t cp_def li_def ap_def])
               (auto simp: lf_def)
          with ok show False by simp
        qed
        note resp = camera_edit_image [OF l t cp_def li_def ap_def lf_def
            conjunct1 [OF c1] conjunct2 [OF c1] conjunct1 [OF c2] conjunct2 [OF c2] c3]
        obtain out where re: "reencode env (dict_get kvs ''image'' JNull) = Inr out"
          using ok resp by (cases "reencode env (dict_get kvs ''image'' JNull)") simp_all
        have "field_of (body (camera_edit env rb)) ''camera_preset'' = Some cp"
          and "field_of (body (camera_edit env rb)) ''lighting'' = Some li"
          and "field_of (body (camera_edit env rb)) ''prompt'' =
            Some (case cp of
                 JStr name \<Rightarrow>
                   JStr (dict_get camera_presets name name
                         @ (if lf \<noteq> [] then '', '' @ lf else [])
                         @ (if truthy ap then '', '' @ fstr env ap else []))
               | _ \<Rightarrow> cp)"
          by (simp_all add: resp re json_response_def)
        with l cp_def li_def ap_def lf_def show ?thesis by blast
      qed
    qed
  qed
qed

text \<open>
  Claim C6 on a request of the sample instance with a camera preset and a lighting of
  the tables and an additional prompt.
\<close>

theorem camera_edit_echo_witness:
  \<open>status_code (camera_edit sample_env
      ''{"image": "PNG1", "camera_preset": "Dutch Angle", "lighting": "Neon", "additional_prompt": "rainy street"}'') = 200
   \<and> field_of (body (camera_edit sample_env
        ''{"image": "PNG1", "camera_preset": "Dutch Angle", "lighting": "Neon", "additional_prompt": "rainy street"}''))
        ''camera_preset'' = Some (JStr ''Dutch Angle'')
   \<and> field_of (body (camera_edit sample_env
        ''{"image": "PNG1", "camera_preset": "Dutch Angle", "lighting": "Neon", "additional_prompt": "rainy street"}''))
        ''lighting'' = Some (JStr ''Neon'')
   \<and> field_of (body (camera_edit sample_env
        ''{"image": "PNG1", "camera_preset": "Dutch Angle", "lighting": "Neon", "additional_prompt": "rainy street"}''))
        ''prompt'' =
        Some (JStr ([CHR 0xE8, CHR 0x8D, CHR 0xB7, CHR 0xE5, CHR 0x85, CHR 0xB0,
                     CHR 0xE8, CHR 0xA7, CHR 0x92, CHR 0xE5, CHR 0xBA, CHR 0xA6]
          @ '', tilted angle, canted frame, neon lighting, vibrant colors, rainy street''))
   \<and> (''Dutch Angle'',
        [CHR 0xE8, CHR 0x8D, CHR 0xB7, CHR 0xE5, CHR 0x85, CHR 0xB0,
         CHR 0xE8, CHR 0xA7, CHR 0x92, CHR 0xE5, CHR 0xBA, CHR 0xA6]
        @ '', tilted angle, canted frame'') \<in> set camera_presets
   \<and> (''Neon'', ''neon lighting, vibrant colors'') \<in> set lighting_presets\<close>
proof -
  have ok: \<open>status_code (camera_edit sample_env
      ''{"image": "PNG1", "camera_preset": "Dutch Angle", "lighting": "Neon", "additional_prompt": "rainy street"}'') = 200\<close>
    by (simp add: camera_edit_def camera_edit_try_def sample_dutch dict_get_list
        camera_instruction_cases lighting_instruction_cases full_prompt_cases
        reencode_def sample_codec)
  have tables: "(''Dutch Angle'',
        [CHR 0xE8, CHR 0x8D, CHR 0xB7, CHR 0xE5, CHR 0x85, CHR 0xB0,
         CHR 0xE8, CHR 0xA7, CHR 0x92, CHR 0xE5, CHR 0xBA, CHR 0xA6]
        @ '', tilted angle, canted frame'') \<in> set camera_presets"
    "(''Neon'', ''neon lighting, vibrant colors'') \<in> set lighting_presets"
    by (simp_all add: camera_presets_def lighting_presets_def)
  from camera_edit_echo [OF ok] ok tables show ?thesis
    by (auto simp: sample_dutch dict_get_list presets_dutch_neon fstr_def)
qed

subsection \<open>The two scenarios of the specification\<close>

text \<open>
  Claim C7. A camera-edit request with \<open>camera_preset\<close> \<open>Front View\<close>, \<open>lighting\<close>
  \<open>Cinematic\<close>, an empty \<open>additional_prompt\<close> and an image that decodes and re-encodes is
  answered with status 200 and the prompt that starts with the four CJK characters
  U+6B63 U+9762 U+89C6 U+89D2 and continues
  \<open>, front view, facing camera directly, cinematic lighting, dramatic shadows\<close>.
\<close>

theorem front_view_cinematic_prompt:
  assumes "json_loads env rb = Inr (JObj kvs)"
    and "map_of kvs ''camera_preset'' = Some (JStr ''Front View'')"
    and "map_of kvs ''lighting'' = Some (JStr ''Cinematic'')"
    and "map_of kvs ''additional_prompt'' = Some (JStr [])"
    and "map_of kvs ''image'' = Some encoded" and "truthy encoded"
    and "b64decode env encoded = Inr data" and "image_open env data = Inr img"
    and "save_png env img = Inr png"
  shows "status_code (camera_edit env rb) = 200 \<and>
     field_of (body (camera_edit env rb)) ''prompt'' =
       Some (JStr ([CHR 0xE6, CHR 0xAD, CHR 0xA3, CHR 0xE9, CHR 0x9D, CHR 0xA2,
                    CHR 0xE8, CHR 0xA7, CHR 0x86, CHR 0xE8, CHR 0xA7, CHR 0x92]
          @ '', front view, facing camera directly, cinematic lighting, dramatic shadows''))"
proof -
  have img: "truthy (dict_get kvs ''image'' JNull)"
    and re: "reencode env (dict_get kvs ''image'' JNull) = Inr (b64encode env png)"
    using assms by (simp_all add: dict_get_def reencode_success)
  show ?thesis
    unfolding camera_edit_def camera_edit_try_image [OF assms(1) img]
    using assms(2-4) re
    by (simp add: dict_get_def camera_instruction_front_view lighting_instruction_cinematic
        full_prompt_def iadd_str_def)
qed

text \<open>Claim C7, on the request of the sample instance with these presets.\<close>

theorem front_view_cinematic_prompt_witness:
  \<open>status_code (camera_edit sample_env
      ''{"image": "PNG1", "camera_preset": "Front View", "lighting": "Cinematic", "additional_prompt": ""}'') = 200 \<and>
   field_of (body (camera_edit sample_env
      ''{"image": "PNG1", "camera_preset": "Front View", "lighting": "Cinematic", "additional_prompt": ""}'')) ''prompt'' =
       Some (JStr ([CHR 0xE6, CHR 0xAD, CHR 0xA3, CHR 0xE9, CHR 0x9D, CHR 0xA2,
                    CHR 0xE8, CHR 0xA7, CHR 0x86, CHR 0xE8, CHR 0xA7, CHR 0x92]
          @ '', front view, facing camera directly, cinematic lighting, dramatic shadows''))\<close>
  by (rule front_view_cinematic_prompt [where encoded = "JStr ''PNG1''"
        and data = "''PNG1''" and img = "''PNG1''" and png = "''PNG1''", OF sample_front_view])
     (simp_all add: sample_codec)

text \<open>
  Claim C8. A camera-edit request with the unknown \<open>camera_preset\<close> \<open>My Custom Shot\<close>,
  \<open>lighting\<close> \<open>None\<close>, an empty \<open>additional_prompt\<close> and an image that decodes and
  re-encodes is answered with status 200 and the prompt \<open>My Custom Shot\<close>, exactly.
\<close>

theorem custom_shot_prompt:
  assumes "json_loads env rb = Inr (JObj kvs)"
    and "map_of kvs ''camera_preset'' = Some (JStr ''My Custom Shot'')"
    and "map_of kvs ''lighting'' = Some (JStr ''None'')"
    and "map_of kvs ''additional_prompt'' = Some (JStr [])"
    and "map_of kvs ''image'' = Some encoded" and "truthy encoded"
    and "b64decode env encoded = Inr data" and "image_open env data = Inr img"
    and "save_png env img = Inr png"
  shows "status_code (camera_edit env rb) = 200 \<and>
     field_of (body (camera_edit env rb)) ''prompt'' = Some (JStr ''My Custom Shot'')"
proof -
  have img: "truthy (dict_get kvs ''image'' JNull)"
    and re: "reencode env (dict_get kvs ''image'' JNull) = Inr (b64encode env png)"
    using assms by (simp_all add: dict_get_def reencode_success)
  show ?thesis
    unfolding camera_edit_def camera_edit_try_image [OF assms(1) img]
    using assms(2-4) re
    by (simp add: dict_get_def camera_instruction_custom lighting_instruction_none
        full_prompt_def)
qed

text \<open>Claim C8, on the request of the sample instance with these presets.\<close>

theorem custom_shot_prompt_witness:
  \<open>status_code (camera_edit sample_env
      ''{"image": "PNG1", "camera_preset": "My Custom Shot", "lighting": "None", "additional_prompt": ""}'') = 200 \<and>
   field_of (body (camera_edit sample_env
      ''{"image": "PNG1", "camera_preset": "My Custom Shot", "lighting": "None", "additional_prompt": ""}'')) ''prompt'' =
       Some (JStr ''My Custom Shot'')\<close>
  by (rule custom_shot_prompt [where encoded = "JStr ''PNG1''"
        and data = "''PNG1''" and img = "''PNG1''" and png = "''PNG1''", OF sample_custom_shot])
     (simp_all add: sample_codec)

subsection \<open>Auxiliary facts about the provisioner\<close>

lemma logger_simps [simp]:
  "minio_client (logger lvl msg st) = minio_client st"
  "qwen_model (logger lvl msg st) = qwen_model st"
  "lora_models (logger lvl msg st) = lora_models st"
  "disk (logger lvl msg st) = disk st"
  "log_records (logger lvl msg st) = log_records st @ [(lvl, msg)]"
  by (simp_all add: logger_def)

text \<open>What \<open>download_from_minio\<close> leaves as it is, what it logs and what it writes.\<close>

lemma download_from_minio_keeps:
  "qwen_model (snd (download_from_minio w b obj path st)) = qwen_model st"
  "minio_client (snd (download_from_minio w b obj path st)) = minio_client st"
  "lora_models (snd (download_from_minio w b obj path st)) = lora_models st"
  by (auto simp: download_from_minio_def os_makedirs_def
      split: option.splits sum.splits fetch.splits)

lemma download_from_minio_log:
  "((INFO, ''Loading models from MINIO S3...'')
      \<in> set (log_records (snd (download_from_minio w b obj path st)))) =
   ((INFO, ''Loading models from MINIO S3...'') \<in> set (log_records st))"
  by (auto simp: download_from_minio_def os_makedirs_def
      split: option.splits sum.splits fetch.splits)

lemma download_from_minio_disk:
  "disk st \<subseteq> disk (snd (download_from_minio w b obj path st))"
  by (auto simp: download_from_minio_def os_makedirs_def
      split: option.splits sum.splits fetch.splits)

lemma download_from_minio_fetched:
  assumes "minio_client st = Some c" and "makedirs w (dirname path) = None"
    and "fget_object w c b obj path = Fetched"
  shows "path \<in> disk (snd (download_from_minio w b obj path st))"
    and "dirname path \<in> disk (snd (download_from_minio w b obj path st))"
  using assms by (simp_all add: download_from_minio_def os_makedirs_def)

text \<open>The same for the loop over the adapter files, by induction on the list.\<close>

lemma download_loras_keeps:
  "qwen_model (download_loras w cfg names st) = qwen_model st"
  "minio_client (download_loras w cfg names st) = minio_client st"
  "lora_models (download_loras w cfg names st) = lora_models st"
  by (induction names arbitrary: st) (simp_all add: Let_def download_from_minio_keeps)

lemma download_loras_log:
  "((INFO, ''Loading models from MINIO S3...'')
      \<in> set (log_records (download_loras w cfg names st))) =
   ((INFO, ''Loading models from MINIO S3...'') \<in> set (log_records st))"
  by (induction names arbitrary: st) (simp_all add: Let_def download_from_minio_log)

lemma download_loras_disk: "disk st \<subseteq> disk (download_loras w cfg names st)"
proof (induction names arbitrary: st)
  case Nil
  show ?case by simp
next
  case (Cons n names)
  have "disk st \<subseteq> disk (snd (download_from_minio w (MINIO_BUCKET_NAME cfg) (''loras/'' @ n)
      (path_join LORA_DIR n) (logger INFO (''Downloading LoRA '' @ n @ '' from MINIO...'') st)))"
    using download_from_minio_disk [of "logger INFO (''Downloading LoRA '' @ n @ '' from MINIO...'') st"]
    by simp
  with Cons.IH show ?case
    by (simp add: Let_def) (meson order_trans)
qed

lemma download_loras_fetched:
  assumes client: "minio_client st = Some c"
    and dirs: "\<And>p. makedirs w p = None"
    and fetch: "\<And>b obj path. fget_object w c b obj path = Fetched"
  shows "\<forall>n \<in> set names. path_join LORA_DIR n \<in> disk (download_loras w cfg names st)"
  using client
proof (induction names arbitrary: st)
  case Nil
  show ?case by simp
next
  case (Cons n names)
  let ?s = "logger INFO (''Downloading LoRA '' @ n @ '' from MINIO...'') st"
  let ?d = "snd (download_from_minio w (MINIO_BUCKET_NAME cfg) (''loras/'' @ n)
               (path_join LORA_DIR n) ?s)"
  let ?st' = "if path_join LORA_DIR n \<notin> disk st then ?d else st"
  have step: "download_loras w cfg (n # names) st = download_loras w cfg names ?st'"
    by (simp add: Let_def)
  have client': "minio_client ?st' = Some c"
    using Cons.prems by (simp add: download_from_minio_keeps)
  have here: "path_join LORA_DIR n \<in> disk ?st'"
    using download_from_minio_fetched(1) [of ?s c w "path_join LORA_DIR n"
        "MINIO_BUCKET_NAME cfg" "''loras/'' @ n"] Cons.prems dirs fetch
    by simp
  have "path_join LORA_DIR n \<in> disk (download_loras w cfg names ?st')"
    using here download_loras_disk [of ?st' w cfg names] by blast
  moreover have "\<forall>m \<in> set names. path_join LORA_DIR m \<in> disk (download_loras w cfg names ?st')"
    by (rule Cons.IH [OF client'])
  ultimately show ?case
    unfolding step by simp
qed

text \<open>The same for \<open>load_models_from_minio\<close> and for the fallback branch.\<close>

lemma load_models_from_minio_keeps:
  "qwen_model (snd (load_models_from_minio w cfg st)) = qwen_model st"
  "minio_client (snd (load_models_from_minio w cfg st)) = minio_client st"
  "lora_models (snd (load_models_from_minio w cfg st)) = lora_models st"
  by (auto simp: load_models_from_minio_def os_makedirs_def Let_def
      download_loras_keeps download_from_minio_keeps split: option.splits sum.splits)

lemma load_models_from_minio_log:
  "((INFO, ''Loading models from MINIO S3...'')
      \<in> set (log_records (snd (load_models_from_minio w cfg st)))) =
   ((INFO, ''Loading models from MINIO S3...'') \<in> set (log_records st))"
  by (auto simp: load_models_from_minio_def os_makedirs_def Let_def
      download_loras_log download_from_minio_log split: option.splits sum.splits)

lemma load_models_from_minio_fetched:
  assumes client: "minio_client st = Some c"
    and dirs: "\<And>p. makedirs w p = None"
    and fetch: "\<And>b obj path. fget_object w c b obj path = Fetched"
  shows "fst (load_models_from_minio w cfg st) = Returned ()"
    and "\<forall>n \<in> set loras. path_join LORA_DIR n \<in> disk (snd (load_models_from_minio w cfg st))"
    and "path_join MODEL_CACHE_DIR ''qwen-image-edit'' \<notin> disk st \<Longrightarrow>
         path_join (path_join MODEL_CACHE_DIR ''qwen-image-edit'') ''model.safetensors''
           \<in> disk (snd (load_models_from_minio w cfg st))"
proof -
  let ?s2 = "st\<lparr>disk := insert LORA_DIR (insert MODEL_CACHE_DIR (disk st))\<rparr>"
  let ?qp = "path_join MODEL_CACHE_DIR ''qwen-image-edit''"
  let ?mf = "path_join ?qp ''model.safetensors''"
  let ?d = "snd (download_from_minio w (MINIO_BUCKET_NAME cfg)
               ''qwen-image-edit/model.safetensors'' ?mf
               (logger INFO ''Downloading Qwen Image Edit model from MINIO...'' ?s2))"
  let ?s3 = "if ?qp \<notin> disk ?s2 then ?d else ?s2"
  have run: "load_models_from_minio w cfg st =
      (Returned (), logger INFO ''Models downloaded from MINIO successfully''
         (download_loras w cfg loras ?s3))"
    using dirs by (simp add: load_models_from_minio_def os_makedirs_def Let_def)
  have client3: "minio_client ?s3 = Some c"
    using client by (simp add: download_from_minio_keeps)
  show "fst (load_models_from_minio w cfg st) = Returned ()"
    by (simp add: run)
  show "\<forall>n \<in> set loras. path_join LORA_DIR n \<in> disk (snd (load_models_from_minio w cfg st))"
    using download_loras_fetched [where cfg = cfg and names = loras, OF client3 dirs fetch]
    by (simp add: run)
  show "?mf \<in> disk (snd (load_models_from_minio w cfg st))" if absent: "?qp \<notin> disk st"
  proof -
    have "?qp \<noteq> LORA_DIR" "?qp \<noteq> MODEL_CACHE_DIR"
      by (simp_all add: path_join_def MODEL_CACHE_DIR_def LORA_DIR_def)
    with absent have s3: "?s3 = ?d" by simp
    have "?mf \<in> disk ?d"
      using download_from_minio_fetched(1)
        [of "logger INFO ''Downloading Qwen Image Edit model from MINIO...'' ?s2" c w ?mf
            "MINIO_BUCKET_NAME cfg" "''qwen-image-edit/model.safetensors''"]
        client dirs fetch
      by simp
    with s3 have "?mf \<in> disk ?s3" by simp
    with download_loras_disk [of ?s3 w cfg loras] show ?thesis
      by (auto simp: run)
  qed
qed

lemma minio_fallback_keeps:
  "qwen_model (snd (minio_fallback w cfg st)) = qwen_model st"
  "minio_client (snd (minio_fallback w cfg st)) = minio_client st"
  "lora_models (snd (minio_fallback w cfg st)) = lora_models st"
proof -
  let ?s = "logger INFO ''Loading models from MINIO S3...'' st"
  obtain r st' where run: "load_models_from_minio w cfg ?s = (r, st')"
    by (cases "load_models_from_minio w cfg ?s")
  have keep: "qwen_model st' = qwen_model st" "minio_client st' = minio_client st"
    "lora_models st' = lora_models st"
    using load_models_from_minio_keeps [of w cfg ?s] run by simp_all
  show "qwen_model (snd (minio_fallback w cfg st)) = qwen_model st"
    using run keep by (cases "minio_client st"; cases r) (simp_all add: minio_fallback_def)
  show "minio_client (snd (minio_fallback w cfg st)) = minio_client st"
    using run keep by (cases "minio_client st"; cases r) (simp_all add: minio_fallback_def)
  show "lora_models (snd (minio_fallback w cfg st)) = lora_models st"
    using run keep by (cases "minio_client st"; cases r) (simp_all add: minio_fallback_def)
qed

lemma minio_fallback_log:
  "((INFO, ''Loading models from MINIO S3...'')
      \<in> set (log_records (snd (minio_fallback w cfg st)))) =
   (minio_client st \<noteq> None \<or> (INFO, ''Loading models from MINIO S3...'') \<in> set (log_records st))"
proof (cases "minio_client st")
  case None
  then show ?thesis by (simp add: minio_fallback_def)
next
  case (Some c)
  obtain r st' where run: "load_models_from_minio w cfg
      (logger INFO ''Loading models from MINIO S3...'' st) = (r, st')"
    by (cases "load_models_from_minio w cfg (logger INFO ''Loading models from MINIO S3...'' st)")
  have "(INFO, ''Loading models from MINIO S3...'') \<in> set (log_records st')"
    using load_models_from_minio_log
      [of w cfg "logger INFO ''Loading models from MINIO S3...'' st"] run
    by simp
  with Some run show ?thesis
    by (cases r) (simp_all add: minio_fallback_def)
qed

text \<open>\<open>load_models_from_huggingface\<close>: its result, and what it leaves as it is.\<close>

lemma hub_result:
  "fst (load_models_from_huggingface w cfg st) =
     (case makedirs w HUGGINGFACE_CACHE_DIR of
        Some e \<Rightarrow> Raised e
      | None \<Rightarrow>
          (case snapshot_download w (HUGGINGFACE_MODEL_ID cfg) HUGGINGFACE_CACHE_DIR
                  (hf_token cfg) of
             Inl e \<Rightarrow> Returned False
           | Inr model_path \<Rightarrow> Returned True))"
  by (simp add: load_models_from_huggingface_def os_makedirs_def Let_def
      split: option.splits sum.splits)

lemma hub_keeps_client:
  "minio_client (snd (load_models_from_huggingface w cfg st)) = minio_client st"
  by (simp add: load_models_from_huggingface_def os_makedirs_def Let_def
      split: option.splits sum.splits)

lemma hub_log:
  "((INFO, ''Loading models from MINIO S3...'')
      \<in> set (log_records (snd (load_models_from_huggingface w cfg st)))) =
   ((INFO, ''Loading models from MINIO S3...'') \<in> set (log_records st))"
  by (simp add: load_models_from_huggingface_def os_makedirs_def Let_def
      split: option.splits sum.splits)

lemma hub_not_true_keeps_model:
  "fst (load_models_from_huggingface w cfg st) \<noteq> Returned True \<Longrightarrow>
   qwen_model (snd (load_models_from_huggingface w cfg st)) = qwen_model st"
  by (simp add: load_models_from_huggingface_def os_makedirs_def Let_def
      split: option.splits sum.splits)

text \<open>The state after the module's top-level code has run.\<close>

lemma module_init_client:
  "(minio_client (module_init w cfg files) \<noteq> None) =
     (MINIO_ACCESS_KEY cfg \<noteq> [] \<and> MINIO_SECRET_KEY cfg \<noteq> [] \<and>
      (\<exists>c. minio_connect w (MINIO_ENDPOINT cfg) (MINIO_ACCESS_KEY cfg)
             (MINIO_SECRET_KEY cfg) (MINIO_SECURE cfg) = Inr c))"
  by (simp add: module_init_def init_minio_client_def initial_state_def split: sum.splits)

lemma module_init_model: "qwen_model (module_init w cfg files) = Unset"
  by (simp add: module_init_def init_minio_client_def initial_state_def split: sum.splits)

lemma module_init_log:
  "(INFO, ''Loading models from MINIO S3...'') \<notin> set (log_records (module_init w cfg files))"
  by (simp add: module_init_def init_minio_client_def initial_state_def split: sum.splits)

text \<open>\<open>load_models\<close>: when the line that announces the fallback is logged.\<close>

lemma load_models_log:
  "((INFO, ''Loading models from MINIO S3...'')
      \<in> set (log_records (snd (load_models w cfg st)))) =
   ((minio_client st \<noteq> None \<and>
       (\<not> USE_HUGGINGFACE cfg \<or>
        fst (load_models_from_huggingface w cfg
              (logger INFO ''Attempting to load models from Hugging Face Hub...'' st))
          = Returned False))
    \<or> (INFO, ''Loading models from MINIO S3...'') \<in> set (log_records st))"
proof (cases "USE_HUGGINGFACE cfg")
  case False
  then show ?thesis by (simp add: load_models_def minio_fallback_log)
next
  case True
  let ?s = "logger INFO ''Attempting to load models from Hugging Face Hub...'' st"
  obtain r st' where run: "load_models_from_huggingface w cfg ?s = (r, st')"
    by (cases "load_models_from_huggingface w cfg ?s")
  have client: "minio_client st' = minio_client st"
    using hub_keeps_client [of w cfg ?s] run by simp
  have log: "((INFO, ''Loading models from MINIO S3...'') \<in> set (log_records st')) =
      ((INFO, ''Loading models from MINIO S3...'') \<in> set (log_records st))"
    using hub_log [of w cfg ?s] run by simp
  show ?thesis
  proof (cases r)
    case (Raised e)
    with True run log show ?thesis by (simp add: load_models_def)
  next
    case (Returned b)
    with True run log client show ?thesis
      by (cases b) (simp_all add: load_models_def minio_fallback_log)
  qed
qed

lemma load_models_no_fallback_model:
  assumes "USE_HUGGINGFACE cfg"
    and "fst (load_models_from_huggingface w cfg
            (logger INFO ''Attempting to load models from Hugging Face Hub...'' st))
          = Returned False"
    and "minio_client st = None"
  shows "load_models w cfg st =
     (Returned (),
      logger WARNING ''Neither Hugging Face nor MINIO configured. Models not loaded.''
        (logger WARNING ''Hugging Face download failed, falling back to MINIO...''
          (snd (load_models_from_huggingface w cfg
             (logger INFO ''Attempting to load models from Hugging Face Hub...'' st)))))"
proof -
  let ?s = "logger INFO ''Attempting to load models from Hugging Face Hub...'' st"
  obtain st' where run: "load_models_from_huggingface w cfg ?s = (Returned False, st')"
    using assms(2) by (cases "load_models_from_huggingface w cfg ?s") simp
  have "minio_client st' = None"
    using hub_keeps_client [of w cfg ?s] run assms(3) by simp
  with assms(1) run show ?thesis
    by (simp add: load_models_def minio_fallback_def)
qed

text \<open>The models listing on a state.\<close>

lemma list_models_loaded:
  "field_of (body (list_models cfg st)) ''qwen_image_edit'' =
     Some (JObj [
       (''loaded'', case qwen_model st of PathDict p b \<Rightarrow> JBool b
                    | _ \<Rightarrow> JBool (qwen_model st \<noteq> Unset)),
       (''source'', JStr (if USE_HUGGINGFACE cfg then ''huggingface'' else ''minio'')),
       (''model_id'', if USE_HUGGINGFACE cfg then JStr (HUGGINGFACE_MODEL_ID cfg) else JNull),
       (''path'', case qwen_model st of PathDict p b \<Rightarrow> JStr p
                  | _ \<Rightarrow> JStr (if USE_HUGGINGFACE cfg then HUGGINGFACE_CACHE_DIR
                               else MODEL_CACHE_DIR))])"
  by (cases "qwen_model st") (simp_all add: list_models_def Let_def)

lemma list_models_unset:
  "qwen_model st = Unset \<Longrightarrow>
   \<exists>info. field_of (body (list_models cfg st)) ''qwen_image_edit'' = Some info
      \<and> field_of info ''loaded'' = Some (JBool False)"
  by (simp add: list_models_loaded)

text \<open>The sample worlds and configurations.\<close>

lemma offline_hub_config:
  "USE_HUGGINGFACE hub_config"
  "fst (load_models_from_huggingface offline_world hub_config st) = Returned False"
  "minio_client (module_init offline_world hub_config files) = None"
  by (simp_all add: hub_result hub_config_def offline_world_def module_init_def
      init_minio_client_def initial_state_def)

lemma online_hub_config:
  "makedirs online_world HUGGINGFACE_CACHE_DIR = None"
  "snapshot_download online_world (HUGGINGFACE_MODEL_ID hub_config) HUGGINGFACE_CACHE_DIR
     (hf_token hub_config) = Inr ''/app/models/huggingface/snapshot''"
  "from_pretrained online_world ''/app/models/huggingface/snapshot'' (hf_token hub_config)
     = Inl ''not enough memory''"
  "USE_HUGGINGFACE hub_config"
  by (simp_all add: online_world_def hub_config_def HUGGINGFACE_CACHE_DIR_def
      MODEL_CACHE_DIR_def path_join_def)

lemma online_minio_config:
  "\<not> USE_HUGGINGFACE minio_config"
  "minio_client (module_init online_world minio_config {}) = Some ()"
  "qwen_model (module_init online_world minio_config {}) = Unset"
  "disk (module_init online_world minio_config {}) = {}"
  "makedirs online_world p = None"
  "fget_object online_world c b obj path = Fetched"
  by (simp_all add: minio_config_def online_world_def module_init_def init_minio_client_def
      initial_state_def logger_def)

subsection \<open>When the object-storage fallback is attempted\<close>

text \<open>
  The configuration that selects the hub and has a storage client, in the world where
  the hub's cache directory cannot be created and in the world where the hub cannot be
  reached.
\<close>

lemma blocked_hub_minio_config:
  "USE_HUGGINGFACE hub_minio_config"
  "module_init blocked_cache_world hub_minio_config {} =
     \<lparr>minio_client = Some (), qwen_model = Unset, lora_models = [], disk = {},
      log_records = [(INFO, ''Connected to MINIO at localhost:9000'')]\<rparr>"
  "module_init offline_world hub_minio_config {} =
     \<lparr>minio_client = Some (), qwen_model = Unset, lora_models = [], disk = {},
      log_records = [(INFO, ''Connected to MINIO at localhost:9000'')]\<rparr>"
  "makedirs blocked_cache_world p =
     (if p = ''/app/models/huggingface''
      then Some (''[Errno 17] File exists: '' @ quoted ''/app/models/huggingface'') else None)"
  "fget_object blocked_cache_world c b obj path = Fetched"
  "makedirs offline_world p = None"
  "fget_object offline_world c b obj path = Fetched"
  "snapshot_download offline_world repo dir token = Inl ''Connection refused''"
  "HUGGINGFACE_MODEL_ID hub_minio_config = ''Qwen/Qwen2-VL-2B-Instruct''"
  "MINIO_BUCKET_NAME hub_minio_config = ''qwen-models''"
  "hf_token hub_minio_config = None"
  by (auto simp: hub_minio_config_def hf_token_def blocked_cache_world_def offline_world_def module_init_def
      init_minio_client_def initial_state_def logger_def HUGGINGFACE_CACHE_DIR_def
      MODEL_CACHE_DIR_def path_join_def)

text \<open>
  Claim C4, on a hub attempt that fails before its \<open>try\<close> block. The flag selects the
  hub and a storage client was configured with both credentials. \<open>os.makedirs\<close> of the
  hub's cache directory, the one statement of \<open>load_models_from_huggingface\<close> outside
  its \<open>try\<close>, raises: the exception leaves \<open>load_models\<close>, which has logged its first
  line only; the fallback is not attempted (no record \<open>Loading models from MINIO S3...\<close>,
  nothing on disk) and no warning is logged. The fallback itself returns from the same
  state with the model file on disk. When the hub attempt fails inside the \<open>try\<close> (the
  hub cannot be reached), with the same configuration, the routine returns \<open>False\<close> and
  \<open>load_models\<close> runs the fallback: it returns, its log has the records of
  \<open>load_models_from_minio\<close> and its downloads, and the model file is on disk.
\<close>

theorem hub_cache_dir_failure_skips_fallback:
  "USE_HUGGINGFACE hub_minio_config
   \<and> minio_client (module_init blocked_cache_world hub_minio_config {}) = Some ()
   \<and> makedirs blocked_cache_world HUGGINGFACE_CACHE_DIR =
       Some (''[Errno 17] File exists: '' @ quoted ''/app/models/huggingface'')
   \<and> load_models blocked_cache_world hub_minio_config
         (module_init blocked_cache_world hub_minio_config {}) =
       (Raised (''[Errno 17] File exists: '' @ quoted ''/app/models/huggingface''),
        \<lparr>minio_client = Some (), qwen_model = Unset, lora_models = [], disk = {},
         log_records = [
           (INFO, ''Connected to MINIO at localhost:9000''),
           (INFO, ''Attempting to load models from Hugging Face Hub...'')]\<rparr>)
   \<and> fst (minio_fallback blocked_cache_world hub_minio_config
            (module_init blocked_cache_world hub_minio_config {})) = Returned ()
   \<and> ''/app/models/qwen-image-edit/model.safetensors''
        \<in> disk (snd (minio_fallback blocked_cache_world hub_minio_config
                 (module_init blocked_cache_world hub_minio_config {})))
   \<and> fst (load_models offline_world hub_minio_config
            (module_init offline_world hub_minio_config {})) = Returned ()
   \<and> log_records (snd (load_models offline_world hub_minio_config
            (module_init offline_world hub_minio_config {}))) =
       [(INFO, ''Connected to MINIO at localhost:9000''),
        (INFO, ''Attempting to load models from Hugging Face Hub...''),
        (INFO, ''Downloading Qwen model from Hugging Face: Qwen/Qwen2-VL-2B-Instruct''),
        (ERROR, ''Failed to load models from Hugging Face: Connection refused''),
        (WARNING, ''Hugging Face download failed, falling back to MINIO...''),
        (INFO, ''Loading models from MINIO S3...''),
        (INFO, ''Downloading Qwen Image Edit model from MINIO...''),
        (INFO, ''Downloaded qwen-image-edit/model.safetensors from MINIO to /app/models/qwen-image-edit/model.safetensors''),
        (INFO, ''Downloading LoRA Qwen-Edit-2509-Multiple-angles.safetensors from MINIO...''),
        (INFO, ''Downloaded loras/Qwen-Edit-2509-Multiple-angles.safetensors from MINIO to /app/models/loras/Qwen-Edit-2509-Multiple-angles.safetensors''),
        (INFO, ''Downloading LoRA Qwen-Image-Edit-Lightning-8steps-V1.0.safetensors from MINIO...''),
        (INFO, ''Downloaded loras/Qwen-Image-Edit-Lightning-8steps-V1.0.safetensors from MINIO to /app/models/loras/Qwen-Image-Edit-Lightning-8steps-V1.0.safetensors''),
        (INFO, ''Models downloaded from MINIO successfully''),
        (INFO, check_mark @ '' Models loaded from MINIO'')]
   \<and> ''/app/models/qwen-image-edit/model.safetensors''
        \<in> disk (snd (load_models offline_world hub_minio_config
                 (module_init offline_world hub_minio_config {})))"
  by (simp add: blocked_hub_minio_config load_models_def load_models_from_huggingface_def
      minio_fallback_def load_models_from_minio_def download_from_minio_def os_makedirs_def
      logger_def loras_def path_join_def dirname_def MODEL_CACHE_DIR_def LORA_DIR_def
      HUGGINGFACE_CACHE_DIR_def Let_def)

subsection \<open>A hub download whose model does not load into memory\<close>

text \<open>
  Claim C9. When the cache directory can be created, the hub download returns a path
  and loading the model from that path raises: \<open>load_models_from_huggingface\<close> returns
  \<open>True\<close>; the model handle is the dict with that path and the in-memory flag \<open>False\<close>; what
  it logged is two information records and the warning
  \<open>Could not load model into memory: ... Will use model path for inference.\<close>, and no
  error. With the flag selecting the hub, \<open>load_models\<close> returns with that handle after
  logging the success of the hub, and nothing of the fallback.
\<close>

theorem hub_path_only:
  assumes dir: "makedirs w HUGGINGFACE_CACHE_DIR = None"
    and download: "snapshot_download w (HUGGINGFACE_MODEL_ID cfg) HUGGINGFACE_CACHE_DIR
          (hf_token cfg) = Inr model_path"
    and load: "from_pretrained w model_path (hf_token cfg) = Inl e"
  shows "fst (load_models_from_huggingface w cfg st) = Returned True
     \<and> qwen_model (snd (load_models_from_huggingface w cfg st)) = PathDict model_path False
     \<and> log_records (snd (load_models_from_huggingface w cfg st)) =
         log_records st @
         [(INFO, ''Downloading Qwen model from Hugging Face: '' @ HUGGINGFACE_MODEL_ID cfg),
          (INFO, ''Model downloaded to: '' @ model_path),
          (WARNING, ''Could not load model into memory: '' @ e
                      @ ''. Will use model path for inference.'')]
     \<and> (USE_HUGGINGFACE cfg \<longrightarrow>
          fst (load_models w cfg st) = Returned ()
          \<and> qwen_model (snd (load_models w cfg st)) = PathDict model_path False
          \<and> log_records (snd (load_models w cfg st)) =
              log_records st @
              [(INFO, ''Attempting to load models from Hugging Face Hub...''),
               (INFO, ''Downloading Qwen model from Hugging Face: ''
                        @ HUGGINGFACE_MODEL_ID cfg),
               (INFO, ''Model downloaded to: '' @ model_path),
               (WARNING, ''Could not load model into memory: '' @ e
                           @ ''. Will use model path for inference.''),
               (INFO, check_mark @ '' Models loaded from Hugging Face'')])"
proof -
  have hub: "load_models_from_huggingface w cfg s =
      (Returned True,
       (logger WARNING (''Could not load model into memory: '' @ e
                          @ ''. Will use model path for inference.'')
          (logger INFO (''Model downloaded to: '' @ model_path)
             (logger INFO (''Downloading Qwen model from Hugging Face: ''
                             @ HUGGINGFACE_MODEL_ID cfg)
                (s\<lparr>disk := insert HUGGINGFACE_CACHE_DIR (disk s)\<rparr>))))
         \<lparr>qwen_model := PathDict model_path False\<rparr>)" for s
    using assms by (simp add: load_models_from_huggingface_def os_makedirs_def Let_def)
  show ?thesis
    by (simp add: hub load_models_def)
qed

text \<open>
  Claim C9, on the default configuration in the world where the model does not fit
  into memory.
\<close>

theorem hub_path_only_witness:
  "makedirs online_world HUGGINGFACE_CACHE_DIR = None
   \<and> snapshot_download online_world (HUGGINGFACE_MODEL_ID hub_config) HUGGINGFACE_CACHE_DIR
        (hf_token hub_config) = Inr ''/app/models/huggingface/snapshot''
   \<and> from_pretrained online_world ''/app/models/huggingface/snapshot'' (hf_token hub_config)
        = Inl ''not enough memory''
   \<and> USE_HUGGINGFACE hub_config
   \<and> fst (load_models_from_huggingface online_world hub_config
           (module_init online_world hub_config {})) = Returned True
   \<and> fst (load_models online_world hub_config (module_init online_world hub_config {}))
        = Returned ()
   \<and> qwen_model (snd (load_models online_world hub_config
        (module_init online_world hub_config {})))
        = PathDict ''/app/models/huggingface/snapshot'' False
   \<and> log_records (snd (load_models online_world hub_config
        (module_init online_world hub_config {}))) =
       [(INFO, ''Attempting to load models from Hugging Face Hub...''),
        (INFO, ''Downloading Qwen model from Hugging Face: Qwen/Qwen2-VL-2B-Instruct''),
        (INFO, ''Model downloaded to: /app/models/huggingface/snapshot''),
        (WARNING, ''Could not load model into memory: not enough memory''
                    @ ''. Will use model path for inference.''),
        (INFO, check_mark @ '' Models loaded from Hugging Face'')]"
proof -
  have log0: "log_records (module_init online_world hub_config {}) = []"
    by (simp add: module_init_def init_minio_client_def initial_state_def hub_config_def)
  have id: "HUGGINGFACE_MODEL_ID hub_config = ''Qwen/Qwen2-VL-2B-Instruct''"
    by (simp add: hub_config_def)
  from hub_path_only [OF online_hub_config(1-3), of "module_init online_world hub_config {}"]
    online_hub_config log0 id
  show ?thesis by simp
qed

subsection \<open>The fallback never sets the model handle\<close>

text \<open>
  Claim C10. \<open>load_models_from_minio\<close> and the whole fallback branch leave the model
  handle as it was. So if the handle was \<open>None\<close> before the fallback, the models listing
  afterwards reports \<open>loaded\<close> as \<open>false\<close>; and after \<open>load_models\<close> from the module's
  initial state, whenever the hub routine was not selected or did not return \<open>True\<close>,
  the handle is \<open>None\<close> and the listing reports \<open>loaded\<close> as \<open>false\<close>. This includes the
  runs in which every fetch succeeds: then the routine returns, both adapter files are
  on disk, and so is the model file unless its directory was there before (the routine
  then skips that download).
\<close>

theorem fallback_leaves_model_unset:
  "qwen_model (snd (load_models_from_minio w cfg st)) = qwen_model st
   \<and> qwen_model (snd (minio_fallback w cfg st)) = qwen_model st
   \<and> (qwen_model st = Unset \<longrightarrow>
        (\<exists>info. field_of (body (list_models cfg (snd (minio_fallback w cfg st))))
                  ''qwen_image_edit'' = Some info
           \<and> field_of info ''loaded'' = Some (JBool False)))
   \<and> (fst (load_models_from_huggingface w cfg
              (logger INFO ''Attempting to load models from Hugging Face Hub...''
                 (module_init w cfg files))) \<noteq> Returned True
        \<or> \<not> USE_HUGGINGFACE cfg \<longrightarrow>
        qwen_model (snd (load_models w cfg (module_init w cfg files))) = Unset
        \<and> (\<exists>info. field_of (body (list_models cfg
                     (snd (load_models w cfg (module_init w cfg files)))))
                  ''qwen_image_edit'' = Some info
             \<and> field_of info ''loaded'' = Some (JBool False)))
   \<and> (minio_client st = Some c \<and> (\<forall>p. makedirs w p = None)
        \<and> (\<forall>b obj path. fget_object w c b obj path = Fetched) \<longrightarrow>
        fst (load_models_from_minio w cfg st) = Returned ()
        \<and> (\<forall>n \<in> set loras.
              path_join LORA_DIR n \<in> disk (snd (load_models_from_minio w cfg st)))
        \<and> (path_join MODEL_CACHE_DIR ''qwen-image-edit'' \<in> disk st
            \<or> path_join (path_join MODEL_CACHE_DIR ''qwen-image-edit'') ''model.safetensors''
                 \<in> disk (snd (load_models_from_minio w cfg st))))"
proof (intro conjI impI)
  show "qwen_model (snd (load_models_from_minio w cfg st)) = qwen_model st"
    by (rule load_models_from_minio_keeps)
  show "qwen_model (snd (minio_fallback w cfg st)) = qwen_model st"
    by (rule minio_fallback_keeps)
  show "\<exists>info. field_of (body (list_models cfg (snd (minio_fallback w cfg st))))
                  ''qwen_image_edit'' = Some info
           \<and> field_of info ''loaded'' = Some (JBool False)"
    if "qwen_model st = Unset"
    using that by (intro list_models_unset) (simp add: minio_fallback_keeps)
next
  assume a: "fst (load_models_from_huggingface w cfg
              (logger INFO ''Attempting to load models from Hugging Face Hub...''
                 (module_init w cfg files))) \<noteq> Returned True
        \<or> \<not> USE_HUGGINGFACE cfg"
  let ?s = "logger INFO ''Attempting to load models from Hugging Face Hub...''
                 (module_init w cfg files)"
  show unset: "qwen_model (snd (load_models w cfg (module_init w cfg files))) = Unset"
  proof (cases "USE_HUGGINGFACE cfg")
    case False
    then show ?thesis
      by (simp add: load_models_def minio_fallback_keeps module_init_model)
  next
    case True
    with a have nt: "fst (load_models_from_huggingface w cfg ?s) \<noteq> Returned True" by simp
    obtain r st' where run: "load_models_from_huggingface w cfg ?s = (r, st')"
      by (cases "load_models_from_huggingface w cfg ?s")
    have keep: "qwen_model st' = Unset"
      using hub_not_true_keeps_model [OF nt] run by (simp add: module_init_model)
    show ?thesis
    proof (cases r)
      case (Raised e)
      with True run keep show ?thesis by (simp add: load_models_def)
    next
      case (Returned b)
      with nt run have "b = False" by simp
      with True run keep Returned show ?thesis
        by (simp add: load_models_def minio_fallback_keeps)
    qed
  qed
  show "\<exists>info. field_of (body (list_models cfg
                     (snd (load_models w cfg (module_init w cfg files)))))
                  ''qwen_image_edit'' = Some info
             \<and> field_of info ''loaded'' = Some (JBool False)"
    using unset by (rule list_models_unset)
next
  assume a: "minio_client st = Some c \<and> (\<forall>p. makedirs w p = None)
        \<and> (\<forall>b obj path. fget_object w c b obj path = Fetched)"
  then have client: "minio_client st = Some c" and dirs: "\<And>p. makedirs w p = None"
    and fetch: "\<And>b obj path. fget_object w c b obj path = Fetched"
    by simp_all
  show "fst (load_models_from_minio w cfg st) = Returned ()"
    using client dirs fetch by (rule load_models_from_minio_fetched(1))
  show "\<forall>n \<in> set loras.
          path_join LORA_DIR n \<in> disk (snd (load_models_from_minio w cfg st))"
    using client dirs fetch by (rule load_models_from_minio_fetched(2))
  show "path_join MODEL_CACHE_DIR ''qwen-image-edit'' \<in> disk st
        \<or> path_join (path_join MODEL_CACHE_DIR ''qwen-image-edit'') ''model.safetensors''
             \<in> disk (snd (load_models_from_minio w cfg st))"
    using load_models_from_minio_fetched(3) [OF client dirs fetch] by blast
qed

text \<open>
  Claim C10, on the configuration that deselects the hub, in a world where every fetch
  succeeds and nothing is on disk before.
\<close>

theorem fallback_leaves_model_unset_witness:
  "\<not> USE_HUGGINGFACE minio_config
   \<and> qwen_model (module_init online_world minio_config {}) = Unset
   \<and> minio_client (module_init online_world minio_config {}) = Some ()
   \<and> (\<forall>p. makedirs online_world p = None)
   \<and> (\<forall>b obj path. fget_object online_world () b obj path = Fetched)
   \<and> fst (load_models_from_minio online_world minio_config
           (module_init online_world minio_config {})) = Returned ()
   \<and> ''/app/models/qwen-image-edit/model.safetensors''
        \<in> disk (snd (load_models_from_minio online_world minio_config
                 (module_init online_world minio_config {})))
   \<and> ''/app/models/loras/Qwen-Edit-2509-Multiple-angles.safetensors''
        \<in> disk (snd (load_models_from_minio online_world minio_config
                 (module_init online_world minio_config {})))
   \<and> ''/app/models/loras/Qwen-Image-Edit-Lightning-8steps-V1.0.safetensors''
        \<in> disk (snd (load_models_from_minio online_world minio_config
                 (module_init online_world minio_config {})))
   \<and> qwen_model (snd (load_models_from_minio online_world minio_config
                 (module_init online_world minio_config {}))) = Unset
   \<and> qwen_model (snd (load_models online_world minio_config
                 (module_init online_world minio_config {}))) = Unset
   \<and> (\<exists>info. field_of (body (list_models minio_config
                  (snd (load_models online_world minio_config
                     (module_init online_world minio_config {})))))
               ''qwen_image_edit'' = Some info
          \<and> field_of info ''loaded'' = Some (JBool False))"
  using fallback_leaves_model_unset [where w = online_world and cfg = minio_config
      and st = "module_init online_world minio_config {}" and files = "{}" and c = "()"]
  by (simp add: online_minio_config loras_def path_join_def MODEL_CACHE_DIR_def LORA_DIR_def)

end
